theory Spec2Isabelle
  imports Main
begin

section \<open>Values and objects\<close>

text \<open>
  The trees that \<^verbatim>\<open>src/index.js\<close> works on are plain JavaScript data, as
  \<^verbatim>\<open>JSON.parse\<close> or an object literal of a language module builds them. A number
  is never inspected by the program (it is copied), so an integer stands for it. An
  object is the list of its own enumerable properties in the order in which
  \<^verbatim>\<open>for ... in\<close>, \<^verbatim>\<open>Object.entries\<close> and the spread operator visit them; its
  prototype is \<^verbatim>\<open>Object.prototype\<close>. What a read finds beyond the own properties,
  on the prototype chain, is a parameter of the model (the field \<open>inherited\<close> of
  the environment, below).
\<close>

datatype jsval =
    JUndef
  | JNull
  | JBool bool
  | JNum int
  | JStr string
  | JArr "jsval list"
  | JObj "(string \<times> jsval) list"

type_synonym obj = "(string \<times> jsval) list"

text \<open>\<^verbatim>\<open>typeof v === 'string'\<close>, and the test
  \<^verbatim>\<open>typeof v === 'object' && !Array.isArray(v) && v !== null\<close> of lines 199 and 250.\<close>

fun is_string :: "jsval \<Rightarrow> bool" where
  "is_string (JStr s) = True"
| "is_string v = False"


text \<open>The condition of \<^verbatim>\<open>target ? ... : ...\<close>: every value is truthy but
  \<^verbatim>\<open>undefined\<close>, \<^verbatim>\<open>null\<close>, \<^verbatim>\<open>false\<close>, \<^verbatim>\<open>0\<close> and the empty string.\<close>

fun truthy :: "jsval \<Rightarrow> bool" where
  "truthy JUndef = False"
| "truthy JNull = False"
| "truthy (JBool b) = b"
| "truthy (JNum n) = (n \<noteq> 0)"
| "truthy (JStr s) = (s \<noteq> [])"
| "truthy (JArr xs) = True"
| "truthy (JObj es) = True"

text \<open>\<^verbatim>\<open>v === undefined || v === null\<close> (line 205).\<close>

fun nullish :: "jsval \<Rightarrow> bool" where
  "nullish JUndef = True"
| "nullish JNull = True"
| "nullish v = False"

subsection \<open>Property keys and their order\<close>

text \<open>
  A key that is the canonical decimal form of an integer below \<open>2^32 - 1\<close> is an
  array index. The own keys of an object come in this order: the array indices,
  ascending, and then every other key in the order of its creation.
\<close>

definition is_digit :: "char \<Rightarrow> bool" where
  "is_digit c = (c \<in> set ''0123456789'')"

definition digits_val :: "string \<Rightarrow> nat" where
  "digits_val s = foldl (\<lambda>n c. 10 * n + (of_char c - 48)) 0 s"

definition is_index :: "string \<Rightarrow> bool" where
  "is_index s = (s \<noteq> [] \<and> list_all is_digit s \<and> (length s = 1 \<or> hd s \<noteq> CHR ''0'')
     \<and> digits_val s < 2 ^ 32 - 1)"

text \<open>\<open>key_before a b\<close>: the key \<open>a\<close> may stand before the key \<open>b\<close> among the own
  keys of one object.\<close>

definition key_before :: "string \<Rightarrow> string \<Rightarrow> bool" where
  "key_before a b = (if is_index b then is_index a \<and> digits_val a < digits_val b else True)"

definition key_order :: "string list \<Rightarrow> bool" where
  "key_order ks = (distinct ks \<and> sorted_wrt key_before ks)"

text \<open>A value is well formed when every object in it, outside arrays too, lists its
  keys once each and in the order of the language.\<close>

fun wf_val :: "jsval \<Rightarrow> bool"
  and wf_vals :: "jsval list \<Rightarrow> bool"
  and wf_obj :: "obj \<Rightarrow> bool" where
  "wf_val (JObj es) = (key_order (map fst es) \<and> wf_obj es)"
| "wf_val (JArr xs) = wf_vals xs"
| "wf_val v = True"
| "wf_vals [] = True"
| "wf_vals (x # xs) = (wf_val x \<and> wf_vals xs)"
| "wf_obj [] = True"
| "wf_obj ((k, v) # es) = (wf_val v \<and> wf_obj es)"

subsection \<open>Reading and writing a property\<close>

definition has_key :: "obj \<Rightarrow> string \<Rightarrow> bool" where
  "has_key es k = (k \<in> set (map fst es))"

text \<open>Defining the own property \<open>k\<close> of an object, as the spread operator and
  \<^verbatim>\<open>JSON.parse\<close> do for every key: an existing property keeps its place; a new
  array index goes before the first key it must precede, every other new key
  goes last.\<close>

fun obj_insert :: "string \<Rightarrow> jsval \<Rightarrow> obj \<Rightarrow> obj" where
  "obj_insert k v [] = [(k, v)]"
| "obj_insert k v ((k', v') # es) =
     (if is_index k \<and> (\<not> is_index k' \<or> digits_val k < digits_val k')
      then (k, v) # (k', v') # es
      else (k', v') # obj_insert k v es)"

fun obj_replace :: "string \<Rightarrow> jsval \<Rightarrow> obj \<Rightarrow> obj" where
  "obj_replace k v [] = []"
| "obj_replace k v ((k', v') # es) =
     (if k' = k then (k, v) # es else (k', v') # obj_replace k v es)"

definition obj_set :: "obj \<Rightarrow> string \<Rightarrow> jsval \<Rightarrow> obj" where
  "obj_set es k v = (if has_key es k then obj_replace k v es else obj_insert k v es)"

text \<open>
  The assignment \<^verbatim>\<open>o[key] = v\<close> on an object that the program has created with
  \<^verbatim>\<open>{}\<close>. For every key but one it defines the own property. The key
  \<^verbatim>\<open>__proto__\<close> names an accessor of \<^verbatim>\<open>Object.prototype\<close>: the assignment calls its
  setter, which replaces the prototype of the object when \<open>v\<close> is an object or
  \<^verbatim>\<open>null\<close> and does nothing otherwise; no own property is created. The model
  keeps the own properties of an object and not its prototype.
\<close>

definition obj_assign :: "obj \<Rightarrow> string \<Rightarrow> jsval \<Rightarrow> obj" where
  "obj_assign es k v = (if k = ''__proto__'' then es else obj_set es k v)"


section \<open>The process: configuration, libraries and state\<close>

text \<open>
  What the program takes from outside is collected in one record: the translation
  service behind \<^verbatim>\<open>axios.post\<close>, the library functions whose code is not part of
  the repository (\<^verbatim>\<open>Intl.DateTimeFormat\<close>, \<^verbatim>\<open>JSON.stringify\<close>, \<^verbatim>\<open>JSON.parse\<close>,
  \<^verbatim>\<open>require\<close>, the conversion of a value to a string in a template literal), the
  built-in prototypes, and the configuration read at lines 140 to 149.

  \<open>inherited v k\<close> is what the read \<open>v[k]\<close> finds when \<open>v\<close> has no own property
  \<open>k\<close>: the member \<open>k\<close> of the prototype chain of \<open>v\<close> (of \<^verbatim>\<open>Object.prototype\<close> for
  an object, of \<^verbatim>\<open>String.prototype\<close> and then \<^verbatim>\<open>Object.prototype\<close> for a string, and
  so on), and \<^verbatim>\<open>undefined\<close> when there is none. A function or a built-in object
  that such a read returns is given as a value of the model that is truthy and
  not \<^verbatim>\<open>null\<close>; the program does no more with it than read it again.

  \<open>date_format l f s t\<close> stands for
  \<^verbatim>\<open>new Intl.DateTimeFormat(l, { f: s }).format(new Date(t))\<close>, in the time zone and
  the calendar of the process; it is \<open>None\<close> when the constructor throws a
  \<^verbatim>\<open>RangeError\<close> (a locale that is not a language tag).

  \<open>provider n t l\<close> is the answer to the request number \<open>n\<close> of the process
  (counting from 0), for the text \<open>t\<close> and the target language \<open>l\<close>: the
  translated string, or \<open>None\<close> when the request or the reading of its
  response throws.
\<close>

datatype date_field = Weekday | Month

datatype date_style = Long | Short

record env =
  provider :: "nat \<Rightarrow> string \<Rightarrow> string \<Rightarrow> string option"
  inherited :: "jsval \<Rightarrow> string \<Rightarrow> jsval"
  date_format :: "string \<Rightarrow> date_field \<Rightarrow> date_style \<Rightarrow> int \<Rightarrow> string option"
  json_stringify :: "jsval \<Rightarrow> string"
  json_parse :: "string \<Rightarrow> jsval option"
  require_default :: "string \<Rightarrow> string \<Rightarrow> jsval option"
  to_string :: "jsval \<Rightarrow> string"
  outputLanguages :: "string list"
  languageSourcePath :: string
  languageSource :: obj
  outputDir :: string

text \<open>The errors: the failure that \<^verbatim>\<open>apiSingleCall\<close> raises (line 184), with the
  text and the number of attempts; the one of \<^verbatim>\<open>saveTranslations\<close> (line 121); a
  file that \<^verbatim>\<open>JSON.parse\<close> or \<^verbatim>\<open>require\<close> cannot read; the \<^verbatim>\<open>TypeError\<close> of a call
  of something that is not a function, with the name called; the \<^verbatim>\<open>RangeError\<close>
  of \<^verbatim>\<open>Intl.DateTimeFormat\<close>, with the locale.\<close>

datatype error =
    TranslationFailure string int
  | UnsupportedExtension string
  | UnreadableFile string
  | TypeError string
  | RangeError string

datatype event =
    LocaleStarted string
  | LocaleFinished string
  | FileWritten string

text \<open>
  The program is a chain of \<^verbatim>\<open>async\<close> functions. A call that is awaited is
  modelled by running the callee to its end. One call is not awaited, the one of
  \<^verbatim>\<open>saveTranslations\<close> at line 235: such a call runs at once up to the first
  \<^verbatim>\<open>await\<close> that waits for the network, and what it does after that happens
  later, when the caller has gone on. The field \<open>mode\<close> says where the process is:
  in the awaited chain, in a call that was not awaited and has not waited yet, or
  in one that has. A file write of the last kind does not happen during the
  call: it is kept in \<open>late_writes\<close>. In a run it lands when the answer it waits
  for has come, at some time after the caller has gone on; \<open>settle\<close> lets the
  writes that are left land, as the last step. An error of a call that was not
  awaited reaches no caller and is kept in \<open>unhandled\<close>.
\<close>

datatype task_mode = Awaited | Detached | Detached_suspended

record world =
  fs :: "string \<Rightarrow> string option"
  currentLanguage :: string
  requests :: "(string \<times> string) list"
  sleeps :: "int list"
  events :: "event list"
  mode :: task_mode
  late_writes :: "(string \<times> string) list"
  unhandled :: "error list"

definition suspend :: "task_mode \<Rightarrow> task_mode" where
  "suspend m = (if m = Detached then Detached_suspended else m)"

text \<open>\<^verbatim>\<open>await axios.post(url, dataToTranslate, ...)\<close> with the reading of
  \<^verbatim>\<open>response.data[0].translations[0].text\<close> (lines 166 to 175).\<close>

definition axios_post :: "env \<Rightarrow> string \<Rightarrow> string \<Rightarrow> world \<Rightarrow> string option \<times> world" where
  "axios_post e txt lang w =
     (provider e (length (requests w)) txt lang,
      w\<lparr>requests := requests w @ [(txt, lang)], mode := suspend (mode w)\<rparr>)"

text \<open>\<^verbatim>\<open>await sleep(ms)\<close> (lines 260 to 262).\<close>

definition sleep :: "int \<Rightarrow> world \<Rightarrow> world" where
  "sleep ms w = w\<lparr>sleeps := sleeps w @ [ms], mode := suspend (mode w)\<rparr>"

text \<open>\<^verbatim>\<open>fs.writeFileSync(filePath, content, 'utf8')\<close>.\<close>

definition writeFileSync :: "string \<Rightarrow> string \<Rightarrow> world \<Rightarrow> world" where
  "writeFileSync filePath content w =
     (if mode w = Detached_suspended
      then w\<lparr>late_writes := late_writes w @ [(filePath, content)]\<rparr>
      else w\<lparr>fs := (fs w)(filePath \<mapsto> content), events := events w @ [FileWritten filePath]\<rparr>)"

text \<open>The writes that were left behind land, in their order.\<close>

definition settle :: "world \<Rightarrow> world" where
  "settle w =
     w\<lparr>fs := fold (\<lambda>(p, c) f. f(p \<mapsto> c)) (late_writes w) (fs w),
       events := events w @ map (\<lambda>(p, c). FileWritten p) (late_writes w),
       late_writes := []\<rparr>"


section \<open>The tree differ\<close>

text \<open>
  The read \<open>v[key]\<close> of the language, for a value that is not \<^verbatim>\<open>undefined\<close> or
  \<^verbatim>\<open>null\<close>: an own property of an object, an element or the length of an array,
  a character or the length of a string, and otherwise what the prototype chain
  holds for the key. (The program never reads a property of \<^verbatim>\<open>undefined\<close> or
  \<^verbatim>\<open>null\<close>: line 197 asks first.)
\<close>

fun get_prop :: "env \<Rightarrow> jsval \<Rightarrow> string \<Rightarrow> jsval" where
  "get_prop e (JObj es) k = (case map_of es k of Some v \<Rightarrow> v | None \<Rightarrow> inherited e (JObj es) k)"
| "get_prop e (JArr xs) k =
     (if is_index k \<and> digits_val k < length xs then xs ! digits_val k
      else if k = ''length'' then JNum (int (length xs)) else inherited e (JArr xs) k)"
| "get_prop e (JStr s) k =
     (if is_index k \<and> digits_val k < length s then JStr [s ! digits_val k]
      else if k = ''length'' then JNum (int (length s)) else inherited e (JStr s) k)"
| "get_prop e (JNum n) k = inherited e (JNum n) k"
| "get_prop e (JBool b) k = inherited e (JBool b) k"
| "get_prop e v k = JUndef"

text \<open>
  \<^verbatim>\<open>findMissingKeys(source, target)\<close>, lines 191 to 213.
  \<^verbatim>\<open>
  const missingKeys = {};
  for (const key in source) {
    if (source.hasOwnProperty(key)) {
      const sourceValue = source[key];
      const targetValue = target ? target[key] : undefined;
      if (typeof sourceValue === 'object' && !Array.isArray(sourceValue) && sourceValue !== null) {
        const nestedMissing = findMissingKeys(sourceValue, targetValue);
        if (Object.keys(nestedMissing).length > 0) missingKeys[key] = nestedMissing;
      } else if (targetValue === undefined || targetValue === null) {
        missingKeys[key] = sourceValue;
      }
    }
  }
  return missingKeys;
  \<close>
  The loop takes the properties of the source still to visit and the object
  \<^verbatim>\<open>missingKeys\<close> built so far. The call \<^verbatim>\<open>source.hasOwnProperty(key)\<close> of line 195
  finds the method on the prototype of the source, and is then true for every
  key of the loop, unless the source has an own property of that name: its value
  is data, not a function, and the call throws a \<^verbatim>\<open>TypeError\<close>. The flag
  \<open>shadowed\<close> says that the source of the loop has such a property.
\<close>

definition target_value :: "env \<Rightarrow> jsval \<Rightarrow> string \<Rightarrow> jsval" where
  "target_value e target k = (if truthy target then get_prop e target k else JUndef)"

fun findMissingKeys_loop :: "env \<Rightarrow> bool \<Rightarrow> obj \<Rightarrow> jsval \<Rightarrow> obj \<Rightarrow> error + obj" where
  "findMissingKeys_loop e shadowed [] target missingKeys = Inr missingKeys"
| "findMissingKeys_loop e shadowed ((k, sourceValue) # rest) target missingKeys =
     (if shadowed then Inl (TypeError ''hasOwnProperty'')
      else
        (let targetValue = target_value e target k in
         case sourceValue of
           JObj nested \<Rightarrow>
             (case findMissingKeys_loop e (has_key nested ''hasOwnProperty'') nested targetValue [] of
                Inl err \<Rightarrow> Inl err
              | Inr nestedMissing \<Rightarrow>
                  findMissingKeys_loop e shadowed rest target
                    (if length nestedMissing > 0 then obj_assign missingKeys k (JObj nestedMissing)
                     else missingKeys))
         | _ \<Rightarrow>
             findMissingKeys_loop e shadowed rest target
               (if nullish targetValue then obj_assign missingKeys k sourceValue
                else missingKeys)))"

definition findMissingKeys :: "env \<Rightarrow> obj \<Rightarrow> jsval \<Rightarrow> error + obj" where
  "findMissingKeys e source target =
     findMissingKeys_loop e (has_key source ''hasOwnProperty'') source target []"


section \<open>The translation provider adapter\<close>

text \<open>
  \<^verbatim>\<open>apiSingleCall(value, desiredLanguage, retryCount = 3, delay = 1000)\<close>, lines 154
  to 188. The loop variable \<^verbatim>\<open>attempt\<close> starts at 1. Numbers are integers here: the
  delay is doubled exactly. When the loop ends without a \<^verbatim>\<open>return\<close> or a
  \<^verbatim>\<open>throw\<close> (a \<^verbatim>\<open>retryCount\<close> below 1), the function returns \<^verbatim>\<open>undefined\<close>.
\<close>

function apiSingleCall_loop ::
  "env \<Rightarrow> string \<Rightarrow> string \<Rightarrow> int \<Rightarrow> int \<Rightarrow> int \<Rightarrow> world \<Rightarrow> (error + jsval) \<times> world" where
  "apiSingleCall_loop e v lang retryCount delay attempt w =
     (if attempt \<le> retryCount then
        (case fst (axios_post e v lang w) of
           Some translated \<Rightarrow> (Inr (JStr translated), snd (axios_post e v lang w))
         | None \<Rightarrow>
             (if attempt < retryCount
              then apiSingleCall_loop e v lang retryCount (delay * 2) (attempt + 1)
                     (sleep delay (snd (axios_post e v lang w)))
              else (Inl (TranslationFailure v retryCount), snd (axios_post e v lang w))))
      else (Inr JUndef, w))"
  by pat_completeness auto
termination
  by (relation "measure (\<lambda>(e, v, lang, retryCount, delay, attempt, w). nat (retryCount + 1 - attempt))") auto

definition apiSingleCall :: "env \<Rightarrow> string \<Rightarrow> string \<Rightarrow> world \<Rightarrow> (error + jsval) \<times> world" where
  "apiSingleCall e v lang w = apiSingleCall_loop e v lang 3 1000 1 w"

section \<open>The tree translator\<close>

text \<open>
  \<^verbatim>\<open>translateNestedObject(obj, desiredLanguage)\<close>, lines 239 to 258. The loop over
  \<^verbatim>\<open>Object.entries(obj)\<close> is \<open>translate_entries\<close>, with \<^verbatim>\<open>translatedObj\<close> as its
  accumulator; \<open>translate_items\<close> is the \<^verbatim>\<open>Promise.all\<close> over the elements of an
  array, taken in their order (the calls of the elements are in truth started
  together; the result is the list of their results in the order of the
  elements, and the first failure is the failure of the whole).
\<close>

fun translate_entries :: "env \<Rightarrow> obj \<Rightarrow> string \<Rightarrow> obj \<Rightarrow> world \<Rightarrow> (error + obj) \<times> world"
  and translate_items :: "env \<Rightarrow> jsval list \<Rightarrow> string \<Rightarrow> world \<Rightarrow> (error + jsval list) \<times> world" where
  "translate_entries e [] lang translatedObj w = (Inr translatedObj, w)"
| "translate_entries e ((k, v) # rest) lang translatedObj w =
     (case v of
        JStr s \<Rightarrow>
          (case apiSingleCall e s lang w of
             (Inl err, w1) \<Rightarrow> (Inl err, w1)
           | (Inr t, w1) \<Rightarrow> translate_entries e rest lang (obj_assign translatedObj k t) w1)
      | JArr items \<Rightarrow>
          (case translate_items e items lang w of
             (Inl err, w1) \<Rightarrow> (Inl err, w1)
           | (Inr ts, w1) \<Rightarrow> translate_entries e rest lang (obj_assign translatedObj k (JArr ts)) w1)
      | JObj nested \<Rightarrow>
          (case translate_entries e nested lang [] w of
             (Inl err, w1) \<Rightarrow> (Inl err, w1)
           | (Inr t, w1) \<Rightarrow> translate_entries e rest lang (obj_assign translatedObj k (JObj t)) w1)
      | _ \<Rightarrow> translate_entries e rest lang (obj_assign translatedObj k v) w)"
| "translate_items e [] lang w = (Inr [], w)"
| "translate_items e (item # items) lang w =
     (case (case item of JStr s \<Rightarrow> apiSingleCall e s lang w | _ \<Rightarrow> (Inr item, w)) of
        (Inl err, w1) \<Rightarrow> (Inl err, w1)
      | (Inr t, w1) \<Rightarrow>
          (case translate_items e items lang w1 of
             (Inl err, w2) \<Rightarrow> (Inl err, w2)
           | (Inr ts, w2) \<Rightarrow> (Inr (t # ts), w2)))"

definition translateNestedObject :: "env \<Rightarrow> obj \<Rightarrow> string \<Rightarrow> world \<Rightarrow> (error + obj) \<times> world" where
  "translateNestedObject e obj lang w = translate_entries e obj lang [] w"


section \<open>The derived calendar data\<close>

text \<open>
  \<^verbatim>\<open>Date.UTC(year, month, day)\<close> with a month counted from 0 and a day that may lie
  outside the month (day 0 is the last day of the month before): the milliseconds
  from 1970-01-01T00:00:00Z to the midnight, in universal time, that opens that
  day. \<open>days_from_civil y m d\<close> is the number of days from 1970-01-01 to the day
  \<open>d\<close> of the month \<open>m\<close> (counted from 1) of the year \<open>y\<close> of the Gregorian
  calendar.
\<close>

definition days_from_civil :: "int \<Rightarrow> int \<Rightarrow> int \<Rightarrow> int" where
  "days_from_civil y m d =
     (let y' = (if m \<le> 2 then y - 1 else y);
          era = y' div 400;
          yoe = y' - era * 400;
          doy = (153 * (if m > 2 then m - 3 else m + 9) + 2) div 5 + d - 1;
          doe = yoe * 365 + yoe div 4 - yoe div 100 + doy
      in era * 146097 + doe - 719468)"

definition Date_UTC :: "int \<Rightarrow> int \<Rightarrow> int \<Rightarrow> int" where
  "Date_UTC year month day =
     (days_from_civil (year + month div 12) (month mod 12 + 1) 1 + day - 1) * 86400000"

text \<open>The day of the week, in universal time, of an instant given in milliseconds:
  0 is Sunday, 1 is Monday, and so on (1970-01-01 was a Thursday).\<close>

definition utc_weekday :: "int \<Rightarrow> int" where
  "utc_weekday ms = (ms div 86400000 + 4) mod 7"

text \<open>
  \<^verbatim>\<open>daysForLocale(localeName)\<close>, lines 39 to 55. The properties of the result are
  evaluated in their order: the names are formatted first, and a \<^verbatim>\<open>RangeError\<close> of
  the formatter ends the call before anything is translated; then the word is
  translated, into \<^verbatim>\<open>currentLanguage\<close>.
\<close>

definition getWeekNames :: "env \<Rightarrow> string \<Rightarrow> date_style \<Rightarrow> error + jsval" where
  "getWeekNames e localeCode style =
     (case those (map (\<lambda>day. date_format e localeCode Weekday style (Date_UTC 2021 5 (int day))) [0..<7]) of
        None \<Rightarrow> Inl (RangeError localeCode)
      | Some names \<Rightarrow> Inr (JArr (map JStr names)))"

definition getMonthNames :: "env \<Rightarrow> string \<Rightarrow> date_style \<Rightarrow> error + jsval" where
  "getMonthNames e localeCode style =
     (case those (map (\<lambda>month. date_format e localeCode Month style (Date_UTC 2021 (int month) 2)) [0..<12]) of
        None \<Rightarrow> Inl (RangeError localeCode)
      | Some names \<Rightarrow> Inr (JArr (map JStr names)))"

definition daysForLocale :: "env \<Rightarrow> string \<Rightarrow> world \<Rightarrow> (error + jsval) \<times> world" where
  "daysForLocale e localeName w =
     (let localeCode = (if localeName = ''lzh'' then ''zh'' else localeName) in
      case getMonthNames e localeCode Long of
        Inl err \<Rightarrow> (Inl err, w)
      | Inr monthNames \<Rightarrow>
      (case getMonthNames e localeCode Short of
        Inl err \<Rightarrow> (Inl err, w)
      | Inr monthNamesShort \<Rightarrow>
      (case getWeekNames e localeCode Long of
        Inl err \<Rightarrow> (Inl err, w)
      | Inr dayNames \<Rightarrow>
      (case getWeekNames e localeCode Short of
        Inl err \<Rightarrow> (Inl err, w)
      | Inr dayNamesShort \<Rightarrow>
      (case apiSingleCall e ''Hoje'' (currentLanguage w) w of
        (Inl err, w1) \<Rightarrow> (Inl err, w1)
      | (Inr today, w1) \<Rightarrow>
          (Inr (JObj [(''monthNames'', monthNames),
                      (''monthNamesShort'', monthNamesShort),
                      (''dayNames'', dayNames),
                      (''dayNamesShort'', dayNamesShort),
                      (''today'', today)]), w1))))))"

section \<open>Serialisation and persistence\<close>

text \<open>The characters the serialiser looks for.\<close>

definition newline :: char where "newline = CHR 0x0A"
definition squote :: char where "squote = CHR 0x27"
definition dquote :: char where "dquote = CHR 0x22"
definition backtick :: char where "backtick = CHR 0x60"
definition backslash :: char where "backslash = CHR 0x5C"

text \<open>\<^verbatim>\<open>s.replace(/c/g, r)\<close> for a single character \<open>c\<close>.\<close>

definition replace_all :: "char \<Rightarrow> string \<Rightarrow> string \<Rightarrow> string" where
  "replace_all c r s = concat (map (\<lambda>x. if x = c then r else [x]) s)"

text \<open>
  \<^verbatim>\<open>formatValue(value, key)\<close>, lines 74 to 95. The result is a string for the key
  \<^verbatim>\<open>calendar_locale\<close> and for a string value, and the value itself otherwise.
  (\<^verbatim>\<open>JSON.stringify(undefined)\<close> is \<^verbatim>\<open>undefined\<close>.)
\<close>

definition formatValue :: "env \<Rightarrow> jsval \<Rightarrow> string \<Rightarrow> jsval" where
  "formatValue e v k =
     (if k = ''calendar_locale'' then (if v = JUndef then JUndef else JStr (json_stringify e v))
      else case v of
        JStr s \<Rightarrow>
          (if newline \<in> set s
           then JStr ([backtick] @ replace_all newline [newline] s @ [backtick])
           else if squote \<in> set s \<or> dquote \<in> set s
           then JStr ([backtick] @ replace_all backtick [backslash, backtick] s @ [backtick])
           else JStr ([squote] @ s @ [squote]))
      | _ \<Rightarrow> v)"

text \<open>The value of a template literal \<^verbatim>\<open>${v}\<close>: a string as it is, any other value
  through the conversion of the language.\<close>

definition interpolate :: "env \<Rightarrow> jsval \<Rightarrow> string" where
  "interpolate e v = (case v of JStr s \<Rightarrow> s | _ \<Rightarrow> to_string e v)"

text \<open>The content that \<^verbatim>\<open>saveTranslations\<close> writes for the extension \<^verbatim>\<open>.ts\<close>, lines
  112 to 118.\<close>

definition tsContent :: "env \<Rightarrow> obj \<Rightarrow> string" where
  "tsContent e modifiedData =
     ''export default {'' @ [newline]
     @ concat (map (\<lambda>(k, v). ''    '' @ k @ '': '' @ interpolate e (formatValue e v k) @ '','' @ [newline])
                 modifiedData)
     @ ''};''"

text \<open>The spread \<^verbatim>\<open>{ ...a, ...b }\<close> copies the own properties of \<open>a\<close> and then those
  of \<open>b\<close>, each in its order, into a new object. A value that is not an object
  stands here for one without properties (the files hold objects).\<close>

fun own_entries :: "jsval \<Rightarrow> obj" where
  "own_entries (JObj es) = es"
| "own_entries v = []"

definition spread_into :: "obj \<Rightarrow> obj \<Rightarrow> obj" where
  "spread_into dst src = fold (\<lambda>(k, v) acc. obj_set acc k v) src dst"

text \<open>
  \<^verbatim>\<open>saveTranslations(filePath, data, ext, missingKeys)\<close>, lines 100 to 123. The
  call \<^verbatim>\<open>missingKeys.hasOwnProperty('calendar_locale')\<close> of line 104 throws a
  \<^verbatim>\<open>TypeError\<close> when \<^verbatim>\<open>missingKeys\<close> has an own property \<^verbatim>\<open>hasOwnProperty\<close>, as the
  call of line 195 does. (The object \<^verbatim>\<open>missingKeys\<close> is taken with the prototype
  that \<^verbatim>\<open>{}\<close> gave it, where the method is found.)
\<close>

definition saveTranslations ::
  "env \<Rightarrow> string \<Rightarrow> obj \<Rightarrow> string \<Rightarrow> obj \<Rightarrow> world \<Rightarrow> (error + unit) \<times> world" where
  "saveTranslations e filePath data ext missingKeys w =
     (let modifiedData = spread_into [] data in
      if has_key missingKeys ''hasOwnProperty'' then (Inl (TypeError ''hasOwnProperty''), w)
      else
      case (if has_key missingKeys ''calendar_locale''
            then (case daysForLocale e (currentLanguage w) w of
                    (Inl err, w1) \<Rightarrow> (Inl err, w1)
                  | (Inr calendarLocale, w1) \<Rightarrow>
                      (Inr (obj_assign modifiedData ''calendar_locale'' calendarLocale), w1))
            else (Inr modifiedData, w)) of
        (Inl err, w1) \<Rightarrow> (Inl err, w1)
      | (Inr modifiedData', w1) \<Rightarrow>
          (if ext = ''.json''
           then (Inr (), writeFileSync filePath (json_stringify e (JObj modifiedData')) w1)
           else if ext = ''.ts''
           then (Inr (), writeFileSync filePath (tsContent e modifiedData') w1)
           else (Inl (UnsupportedExtension ext), w1)))"

section \<open>One locale, and all of them\<close>

text \<open>
  \<^verbatim>\<open>path.extname\<close> for a path that names a file: the part of the last segment from
  its last dot on, and nothing when that segment has no dot or only a leading
  one.
\<close>

definition extname :: "string \<Rightarrow> string" where
  "extname p =
     (let base = rev (takeWhile (\<lambda>c. c \<noteq> CHR ''/'') (rev p));
          suffix = rev (takeWhile (\<lambda>c. c \<noteq> CHR ''.'') (rev base))
      in if length base = length suffix + 1 \<or> CHR ''.'' \<notin> set base then []
         else CHR ''.'' # suffix)"

text \<open>\<^verbatim>\<open>const ext = path.extname(languageSourcePath)\<close> (line 148).\<close>

definition ext :: "env \<Rightarrow> string" where
  "ext e = extname (languageSourcePath e)"

text \<open>
  \<^verbatim>\<open>translateAndSaveNestedObject(obj, desiredLanguage, filePath)\<close>, lines 215 to 237.
  The file is read when it exists; \<^verbatim>\<open>JSON.parse\<close> and \<^verbatim>\<open>require\<close> throw on a content
  they cannot read, and an error of \<^verbatim>\<open>findMissingKeys\<close> ends the call. The call of
  \<^verbatim>\<open>saveTranslations\<close> is not awaited: it runs in the mode \<open>Detached\<close>, and its
  error, if any, reaches nobody.
\<close>

definition read_existing :: "env \<Rightarrow> string \<Rightarrow> world \<Rightarrow> error + jsval" where
  "read_existing e filePath w =
     (case fs w filePath of
        None \<Rightarrow> Inr (JObj [])
      | Some fileContent \<Rightarrow>
          (case (if ext e = ''.json'' then json_parse e fileContent
                 else require_default e filePath fileContent) of
             None \<Rightarrow> Inl (UnreadableFile filePath)
           | Some existingTranslations \<Rightarrow> Inr existingTranslations))"

definition call_detached :: "(world \<Rightarrow> (error + unit) \<times> world) \<Rightarrow> world \<Rightarrow> world" where
  "call_detached f w =
     (case f (w\<lparr>mode := Detached\<rparr>) of
        (Inl err, w1) \<Rightarrow> w1\<lparr>mode := mode w, unhandled := unhandled w1 @ [err]\<rparr>
      | (Inr u, w1) \<Rightarrow> w1\<lparr>mode := mode w\<rparr>)"

definition translateAndSaveNestedObject ::
  "env \<Rightarrow> obj \<Rightarrow> string \<Rightarrow> string \<Rightarrow> world \<Rightarrow> (error + unit) \<times> world" where
  "translateAndSaveNestedObject e obj desiredLanguage filePath w =
     (case read_existing e filePath w of
        Inl err \<Rightarrow> (Inl err, w)
      | Inr existingTranslations \<Rightarrow>
          (case findMissingKeys e obj existingTranslations of
             Inl err \<Rightarrow> (Inl err, w)
           | Inr missingKeys \<Rightarrow>
               if length missingKeys = 0 then (Inr (), w)
               else
                 (case translateNestedObject e missingKeys desiredLanguage w of
                    (Inl err, w1) \<Rightarrow> (Inl err, w1)
                  | (Inr translatedData, w1) \<Rightarrow>
                      (let mergedData =
                             spread_into (spread_into [] (own_entries existingTranslations)) translatedData
                       in (Inr (),
                           call_detached (saveTranslations e filePath mergedData (ext e) missingKeys) w1)))))"

text \<open>\<^verbatim>\<open>translateAllKeys(desiredLanguage)\<close>, lines 264 to 272.\<close>

definition target_path :: "env \<Rightarrow> string \<Rightarrow> string" where
  "target_path e desiredLanguage = outputDir e @ ''/'' @ desiredLanguage @ ''.ts''"

definition translateAllKeys :: "env \<Rightarrow> string \<Rightarrow> world \<Rightarrow> (error + unit) \<times> world" where
  "translateAllKeys e desiredLanguage w =
     translateAndSaveNestedObject e (languageSource e) desiredLanguage (target_path e desiredLanguage) w"

text \<open>\<^verbatim>\<open>translateForAllLanguages()\<close>, lines 274 to 282: the loop over
  \<^verbatim>\<open>outputLanguages\<close>, and the function itself.\<close>

fun translateForAllLanguages_loop :: "env \<Rightarrow> string list \<Rightarrow> world \<Rightarrow> (error + unit) \<times> world" where
  "translateForAllLanguages_loop e [] w = (Inr (), w)"
| "translateForAllLanguages_loop e (language # rest) w =
     (let w1 = w\<lparr>currentLanguage := language, events := events w @ [LocaleStarted language]\<rparr> in
      case translateAllKeys e language w1 of
        (Inl err, w2) \<Rightarrow> (Inl err, w2)
      | (Inr u, w2) \<Rightarrow>
          translateForAllLanguages_loop e rest (w2\<lparr>events := events w2 @ [LocaleFinished language]\<rparr>))"

definition translateForAllLanguages :: "env \<Rightarrow> world \<Rightarrow> (error + unit) \<times> world" where
  "translateForAllLanguages e w = translateForAllLanguages_loop e (outputLanguages e) w"


section \<open>Vocabulary of the properties\<close>

subsection \<open>Paths in a tree\<close>

text \<open>\<open>tree_at v p\<close> is the value reached from \<open>v\<close> along the keys \<open>p\<close>, going
  through the own properties of nested objects only. A leaf is a value that is
  not a nested tree.\<close>

fun tree_at :: "jsval \<Rightarrow> string list \<Rightarrow> jsval option" where
  "tree_at v [] = Some v"
| "tree_at (JObj es) (k # ks) = (case map_of es k of None \<Rightarrow> None | Some v \<Rightarrow> tree_at v ks)"
| "tree_at v (k # ks) = None"




definition absent_or_null :: "jsval \<Rightarrow> bool" where
  "absent_or_null v = (v = JUndef \<or> v = JNull)"



subsection \<open>Trees and their translations\<close>

text \<open>
  \<open>translated_val P v out\<close>: the value \<open>out\<close> has the shape of \<open>v\<close>, with
  translations by \<open>P\<close> in the place of the strings. An object has the same keys
  in the same order, and each of its values is related in the same way; an
  array has the same length, with a translation where the source has a string
  and the source's own element elsewhere; a string \<open>s\<close> has a string \<open>r\<close> with
  \<open>P s r\<close>; any other value is itself.
\<close>

fun translated_val :: "(string \<Rightarrow> string \<Rightarrow> bool) \<Rightarrow> jsval \<Rightarrow> jsval \<Rightarrow> bool"
  and translated_elems :: "(string \<Rightarrow> string \<Rightarrow> bool) \<Rightarrow> jsval list \<Rightarrow> jsval list \<Rightarrow> bool"
  and translated_props :: "(string \<Rightarrow> string \<Rightarrow> bool) \<Rightarrow> obj \<Rightarrow> obj \<Rightarrow> bool" where
  "translated_val P (JStr s) out = (case out of JStr r \<Rightarrow> P s r | _ \<Rightarrow> False)"
| "translated_val P (JArr xs) out = (case out of JArr ys \<Rightarrow> translated_elems P xs ys | _ \<Rightarrow> False)"
| "translated_val P (JObj es) out = (case out of JObj ps \<Rightarrow> translated_props P es ps | _ \<Rightarrow> False)"
| "translated_val P v out = (out = v)"
| "translated_elems P [] ys = (ys = [])"
| "translated_elems P (x # xs) ys =
     (case ys of
        [] \<Rightarrow> False
      | y # ys' \<Rightarrow>
          (case x of
             JStr s \<Rightarrow> (case y of JStr r \<Rightarrow> P s r | _ \<Rightarrow> False)
           | _ \<Rightarrow> y = x)
          \<and> translated_elems P xs ys')"
| "translated_props P [] ps = (ps = [])"
| "translated_props P ((k, v) # es) ps =
     (case ps of
        [] \<Rightarrow> False
      | (k', v') # ps' \<Rightarrow> k' = k \<and> translated_val P v v' \<and> translated_props P es ps')"

text \<open>
  \<open>answered_by e lang w w' s r\<close>: among the requests made between the states \<open>w\<close>
  and \<open>w'\<close> there is one for the text \<open>s\<close> in the language \<open>lang\<close> that the
  provider answered with \<open>r\<close>.
\<close>

definition answered_by :: "env \<Rightarrow> string \<Rightarrow> world \<Rightarrow> world \<Rightarrow> string \<Rightarrow> string \<Rightarrow> bool" where
  "answered_by e lang w w' s r =
     (\<exists>i \<in> {length (requests w)..<length (requests w')}.
        requests w' ! i = (s, lang) \<and> provider e i s lang = Some r)"

text \<open>
  \<open>kept_val v\<close> is the tree \<open>v\<close> without the properties named \<^verbatim>\<open>__proto__\<close>, at
  every level of nested objects (the elements of arrays are left as they are).
\<close>

fun kept_val :: "jsval \<Rightarrow> jsval"
  and kept_props :: "obj \<Rightarrow> obj" where
  "kept_val (JObj es) = JObj (kept_props es)"
| "kept_val v = v"
| "kept_props [] = []"
| "kept_props ((k, v) # es) =
     (if k = ''__proto__'' then kept_props es else (k, kept_val v) # kept_props es)"

text \<open>The strings that the translator sends, in the order of its walk: the string
  values of the properties, the string elements of the arrays, and the same
  inside nested objects.\<close>

fun leaf_strings :: "jsval \<Rightarrow> string list"
  and elem_strings :: "jsval list \<Rightarrow> string list"
  and prop_strings :: "obj \<Rightarrow> string list" where
  "leaf_strings (JStr s) = [s]"
| "leaf_strings (JArr xs) = elem_strings xs"
| "leaf_strings (JObj es) = prop_strings es"
| "leaf_strings v = []"
| "elem_strings [] = []"
| "elem_strings (x # xs) = (case x of JStr s \<Rightarrow> [s] | _ \<Rightarrow> []) @ elem_strings xs"
| "prop_strings [] = []"
| "prop_strings ((k, v) # es) = leaf_strings v @ prop_strings es"

text \<open>\<open>calls_made lang strs w w'\<close>: between the states \<open>w\<close> and \<open>w'\<close> the
  provider was asked for each of the strings \<open>strs\<close>, in their order, one
  request and then one more for every failed attempt that was retried, each
  retry after one sleep; and it was asked for nothing else.\<close>

definition attempts :: "string \<Rightarrow> string list \<Rightarrow> nat list \<Rightarrow> (string \<times> string) list" where
  "attempts lang strs ns = concat (map2 (\<lambda>s n. replicate (Suc n) (s, lang)) strs ns)"

definition calls_made :: "string \<Rightarrow> string list \<Rightarrow> world \<Rightarrow> world \<Rightarrow> bool" where
  "calls_made lang strs w w' =
     (\<exists>ns. length ns = length strs
        \<and> requests w' = requests w @ attempts lang strs ns
        \<and> length (sleeps w') = length (sleeps w) + sum_list ns)"

subsection \<open>What a call of the serialiser leaves behind\<close>

text \<open>\<open>serialise e x tree\<close> is the content that \<^verbatim>\<open>saveTranslations\<close> writes for the
  tree and the extension \<open>x\<close> (one of the two it accepts). \<open>written w p c\<close>: the
  last write of the call that ended in the state \<open>w\<close> put the content \<open>c\<close> at
  the path \<open>p\<close>, in the file system already or among the writes still to land.\<close>

definition serialise :: "env \<Rightarrow> string \<Rightarrow> obj \<Rightarrow> string" where
  "serialise e x tree = (if x = ''.json'' then json_stringify e (JObj tree) else tsContent e tree)"

definition written :: "world \<Rightarrow> string \<Rightarrow> string \<Rightarrow> bool" where
  "written w p c =
     (if mode w = Detached_suspended then late_writes w \<noteq> [] \<and> last (late_writes w) = (p, c)
      else fs w p = Some c)"

text \<open>
  The lines that the \<^verbatim>\<open>.ts\<close> content holds for the properties \<open>es\<close>, one for each,
  and the properties of a tree that stand before and after its property
  \<^verbatim>\<open>calendar_locale\<close> (all of them stand before it when the tree has none).
\<close>

definition ts_lines :: "env \<Rightarrow> obj \<Rightarrow> string" where
  "ts_lines e es =
     concat (map (\<lambda>(k, v). ''    '' @ k @ '': '' @ interpolate e (formatValue e v k) @ '','' @ [newline]) es)"

definition before_calendar :: "obj \<Rightarrow> obj" where
  "before_calendar es = takeWhile (\<lambda>(k, v). k \<noteq> ''calendar_locale'') es"

definition after_calendar :: "obj \<Rightarrow> obj" where
  "after_calendar es = drop 1 (dropWhile (\<lambda>(k, v). k \<noteq> ''calendar_locale'') es)"

subsection \<open>Reading a string literal back\<close>

text \<open>
  How the language reads the text of a string literal or of a template without
  substitutions: the literal starts with a quote and ends at the next occurrence
  of that quote that no backslash precedes; a backslash and the character after
  it stand for one character (a newline for \<^verbatim>\<open>\\n\<close>, and here the character itself
  in the other cases). \<open>read_literal s\<close> is the string read and the text left
  after the closing quote, or \<open>None\<close> when \<open>s\<close> does not start with a literal
  that is closed.
\<close>

fun literal_body :: "char \<Rightarrow> string \<Rightarrow> (string \<times> string) option" where
  "literal_body q [] = None"
| "literal_body q [c] = (if c = q then Some ([], []) else None)"
| "literal_body q (c # d # cs) =
     (if c = q then Some ([], d # cs)
      else if c = backslash
      then map_option (\<lambda>(body, rest). ((if d = CHR ''n'' then newline else d) # body, rest))
             (literal_body q cs)
      else map_option (\<lambda>(body, rest). (c # body, rest)) (literal_body q (d # cs)))"

definition read_literal :: "string \<Rightarrow> (string \<times> string) option" where
  "read_literal s =
     (case s of
        [] \<Rightarrow> None
      | q # cs \<Rightarrow> (if q = squote \<or> q = dquote \<or> q = backtick then literal_body q cs else None))"


subsection \<open>A small environment and the world before the first run\<close>

text \<open>
  The examples below run in an environment that answers requests by the function
  \<open>p\<close>. Every value inherits the members of \<^verbatim>\<open>Object.prototype\<close>, each given as an
  empty object; the members of the other prototypes (the methods of strings and
  of arrays), which no example reads, are left out. The formatter of dates
  returns the empty name, \<^verbatim>\<open>JSON.stringify\<close> is a printer without indentation and
  without escapes, and the rest is trivial. \<open>empty_world\<close> is the state of a
  process that has done nothing yet.
\<close>

definition object_prototype_keys :: "string list" where
  "object_prototype_keys =
     [''constructor'', ''hasOwnProperty'', ''isPrototypeOf'', ''propertyIsEnumerable'',
      ''toLocaleString'', ''toString'', ''valueOf'', ''__proto__'', ''__defineGetter__'',
      ''__defineSetter__'', ''__lookupGetter__'', ''__lookupSetter__'']"

definition example_inherited :: "jsval \<Rightarrow> string \<Rightarrow> jsval" where
  "example_inherited v k = (if k \<in> set object_prototype_keys then JObj [] else JUndef)"

fun decimal :: "nat \<Rightarrow> string" where
  "decimal n = (if n < 10 then [char_of (48 + n)] else decimal (n div 10) @ [char_of (48 + n mod 10)])"

fun render :: "jsval \<Rightarrow> string"
  and render_elems :: "jsval list \<Rightarrow> string"
  and render_props :: "obj \<Rightarrow> string" where
  "render JUndef = ''undefined''"
| "render JNull = ''null''"
| "render (JBool b) = (if b then ''true'' else ''false'')"
| "render (JNum n) = (if n < 0 then ''-'' @ decimal (nat (- n)) else decimal (nat n))"
| "render (JStr s) = [dquote] @ s @ [dquote]"
| "render (JArr xs) = ''['' @ render_elems xs @ '']''"
| "render (JObj es) = ''{'' @ render_props es @ ''}''"
| "render_elems [] = []"
| "render_elems (x # xs) = render x @ (if xs = [] then [] else '','' @ render_elems xs)"
| "render_props [] = []"
| "render_props ((k, v) # es) =
     [dquote] @ k @ [dquote] @ '':'' @ render v @ (if es = [] then [] else '','' @ render_props es)"

definition example_env :: "(nat \<Rightarrow> string \<Rightarrow> string \<Rightarrow> string option) \<Rightarrow> env" where
  "example_env p =
     \<lparr>provider = p, inherited = example_inherited, date_format = (\<lambda>l f s t. Some []),
      json_stringify = render, json_parse = (\<lambda>s. None), require_default = (\<lambda>p s. None),
      to_string = (\<lambda>v. []), outputLanguages = [], languageSourcePath = [],
      languageSource = [], outputDir = []\<rparr>"

definition empty_world :: world where
  "empty_world =
     \<lparr>fs = Map.empty, currentLanguage = [], requests = [], sleeps = [], events = [],
      mode = Awaited, late_writes = [], unhandled = []\<rparr>"

subsection \<open>A formatter for the examples\<close>

text \<open>
  \<open>zoned_english_format offset\<close> formats as a process does whose locale is English
  and whose time zone is ahead of universal time by \<open>offset\<close> milliseconds
  (behind it when \<open>offset\<close> is negative): the name of the day of the week, or of
  the month, of the local date of the instant; the short names are the first
  three letters. \<open>civil_month d\<close> is the month, counted from 0, of the day that
  lies \<open>d\<close> days after 1970-01-01.
\<close>

definition civil_month :: "int \<Rightarrow> int" where
  "civil_month d =
     (let z = d + 719468;
          era = z div 146097;
          doe = z - era * 146097;
          yoe = (doe - doe div 1460 + doe div 36524 - doe div 146096) div 365;
          doy = doe - (365 * yoe + yoe div 4 - yoe div 100);
          mp = (5 * doy + 2) div 153
      in (if mp < 10 then mp + 2 else mp - 10))"

definition english_weekday :: "int \<Rightarrow> string" where
  "english_weekday d =
     [''Sunday'', ''Monday'', ''Tuesday'', ''Wednesday'', ''Thursday'', ''Friday'', ''Saturday''] ! nat d"

definition english_month :: "int \<Rightarrow> string" where
  "english_month m =
     [''January'', ''February'', ''March'', ''April'', ''May'', ''June'', ''July'', ''August'',
      ''September'', ''October'', ''November'', ''December''] ! nat m"

definition zoned_english_format ::
  "int \<Rightarrow> string \<Rightarrow> date_field \<Rightarrow> date_style \<Rightarrow> int \<Rightarrow> string option" where
  "zoned_english_format offset l f s t =
     (let name = (case f of
                    Weekday \<Rightarrow> english_weekday (utc_weekday (t + offset))
                  | Month \<Rightarrow> english_month (civil_month ((t + offset) div 86400000)))
      in Some (case s of Long \<Rightarrow> name | Short \<Rightarrow> take 3 name))"


section \<open>Properties of the tree differ\<close>

subsection \<open>Objects as maps\<close>

lemma example_env_fields:
  "provider (example_env p) = p"
  "inherited (example_env p) = example_inherited"
  "date_format (example_env p) = (\<lambda>l f s t. Some [])"
  "json_stringify (example_env p) = render"
  "json_parse (example_env p) = (\<lambda>s. None)"
  "require_default (example_env p) = (\<lambda>p s. None)"
  "to_string (example_env p) = (\<lambda>v. [])"
  "outputLanguages (example_env p) = []"
  "languageSourcePath (example_env p) = []"
  "languageSource (example_env p) = []"
  "outputDir (example_env p) = []"
  by (simp_all add: example_env_def)

lemma has_key_Nil: "has_key [] k = False"
  by (simp add: has_key_def)

lemma has_key_Cons: "has_key ((a, b) # es) k = (k = a \<or> has_key es k)"
  by (auto simp: has_key_def)

lemma map_of_None_iff: "map_of es k = None \<longleftrightarrow> \<not> has_key es k"
  by (simp add: has_key_def map_of_eq_None_iff)

lemma map_of_obj_insert:
  "\<not> has_key es k \<Longrightarrow> map_of (obj_insert k v es) k' = (if k' = k then Some v else map_of es k')"
  by (induction es) (auto simp: has_key_Cons)

lemma map_of_obj_replace:
  "map_of (obj_replace k v es) k' = (if k' = k \<and> has_key es k then Some v else map_of es k')"
  by (induction es) (auto simp: has_key_Cons has_key_Nil map_of_None_iff)

lemma map_of_obj_set: "map_of (obj_set es k v) k' = (if k' = k then Some v else map_of es k')"
  by (simp add: obj_set_def map_of_obj_insert map_of_obj_replace)
























subsection \<open>What the differ returns\<close>





section \<open>Properties of the provider adapter\<close>

declare apiSingleCall_loop.simps [simp del]

lemma suspend_suspend: "suspend (suspend m) = suspend m"
  by (simp add: suspend_def)

lemma backoff_delays: "(delay::int) # map (\<lambda>i. delay * 2 * 2 ^ i) [0..<j] = map (\<lambda>i. delay * 2 ^ i) [0..<Suc j]"
proof -
  have "[0..<Suc j] = 0 # map Suc [0..<j]"
    by (simp add: upt_conv_Cons map_Suc_upt del: upt_Suc)
  then show ?thesis by (simp add: comp_def mult.assoc del: upt_Suc)
qed

lemma apiSingleCall_loop_succeeds:
  "attempt + int j \<le> retryCount \<Longrightarrow>
   \<forall>i<j. provider e (length (requests w) + i) v lang = None \<Longrightarrow>
   provider e (length (requests w) + j) v lang = Some r \<Longrightarrow>
   apiSingleCall_loop e v lang retryCount delay attempt w =
     (Inr (JStr r),
      w\<lparr>requests := requests w @ replicate (Suc j) (v, lang),
        sleeps := sleeps w @ map (\<lambda>i. delay * 2 ^ i) [0..<j],
        mode := suspend (mode w)\<rparr>)"
proof (induction j arbitrary: attempt delay w)
  case 0
  then show ?case by (subst apiSingleCall_loop.simps) (simp add: axios_post_def)
next
  case (Suc j)
  let ?w1 = "sleep delay (snd (axios_post e v lang w))"
  have len: "length (requests ?w1) = Suc (length (requests w))"
    by (simp add: sleep_def axios_post_def)
  have first: "provider e (length (requests w)) v lang = None"
    using Suc.prems(2) by force
  have a: "attempt + 1 + int j \<le> retryCount" using Suc.prems(1) by simp
  have b: "\<forall>i<j. provider e (length (requests ?w1) + i) v lang = None"
    using Suc.prems(2) len by auto
  have c: "provider e (length (requests ?w1) + j) v lang = Some r"
    using Suc.prems(3) len by simp
  have lt: "attempt < retryCount" "attempt \<le> retryCount" using Suc.prems(1) by simp_all
  have step: "apiSingleCall_loop e v lang retryCount delay attempt w =
               apiSingleCall_loop e v lang retryCount (delay * 2) (attempt + 1) ?w1"
    using first lt by (subst apiSingleCall_loop.simps) (simp add: axios_post_def)
  show ?case
    unfolding step Suc.IH[OF a b c]
    using backoff_delays[of delay j]
    by (simp add: sleep_def axios_post_def suspend_suspend replicate_app_Cons_same del: upt_Suc)
qed

lemma apiSingleCall_loop_fails:
  "attempt + int k = retryCount \<Longrightarrow>
   \<forall>i\<le>k. provider e (length (requests w) + i) v lang = None \<Longrightarrow>
   apiSingleCall_loop e v lang retryCount delay attempt w =
     (Inl (TranslationFailure v retryCount),
      w\<lparr>requests := requests w @ replicate (Suc k) (v, lang),
        sleeps := sleeps w @ map (\<lambda>i. delay * 2 ^ i) [0..<k],
        mode := suspend (mode w)\<rparr>)"
proof (induction k arbitrary: attempt delay w)
  case 0
  then show ?case by (subst apiSingleCall_loop.simps) (simp add: axios_post_def)
next
  case (Suc k)
  let ?w1 = "sleep delay (snd (axios_post e v lang w))"
  have len: "length (requests ?w1) = Suc (length (requests w))"
    by (simp add: sleep_def axios_post_def)
  have first: "provider e (length (requests w)) v lang = None"
    using Suc.prems(2) by force
  have a: "attempt + 1 + int k = retryCount" using Suc.prems(1) by simp
  have b: "\<forall>i\<le>k. provider e (length (requests ?w1) + i) v lang = None"
    using Suc.prems(2) len by auto
  have lt: "attempt < retryCount" "attempt \<le> retryCount" using Suc.prems(1) by simp_all
  have step: "apiSingleCall_loop e v lang retryCount delay attempt w =
               apiSingleCall_loop e v lang retryCount (delay * 2) (attempt + 1) ?w1"
    using first lt by (subst apiSingleCall_loop.simps) (simp add: axios_post_def)
  show ?case
    unfolding step Suc.IH[OF a b]
    using backoff_delays[of delay k]
    by (simp add: sleep_def axios_post_def suspend_suspend replicate_app_Cons_same del: upt_Suc)
qed

text \<open>
  Claim C4. The adapter makes up to \<^verbatim>\<open>retryCount\<close> attempts, 3 unless the caller
  says otherwise. When the provider fails on the first \<open>n - 1\<close> requests and
  answers the request \<open>n\<close>, with \<open>n\<close> at most \<^verbatim>\<open>retryCount\<close>, the adapter returns
  that answer after exactly \<open>n\<close> requests, each for the same text and language,
  and it has slept before each retry: \<^verbatim>\<open>delay\<close>, twice that, and so on (1000, 2000,
  ... by default). When the provider fails on every request, the adapter raises
  the failure that carries the text and \<^verbatim>\<open>retryCount\<close> after exactly \<^verbatim>\<open>retryCount\<close>
  requests. Nothing else of the state changes.
\<close>

theorem apiSingleCall_retry:
  "(1 \<le> n \<and> int n \<le> retryCount
      \<and> (\<forall>i<n - 1. provider e (length (requests w) + i) v lang = None)
      \<and> provider e (length (requests w) + (n - 1)) v lang = Some r
    \<longrightarrow> apiSingleCall_loop e v lang retryCount delay 1 w =
          (Inr (JStr r),
           w\<lparr>requests := requests w @ replicate n (v, lang),
             sleeps := sleeps w @ map (\<lambda>i. delay * 2 ^ i) [0..<n - 1],
             mode := suspend (mode w)\<rparr>))
   \<and> (1 \<le> retryCount
      \<and> (\<forall>i<nat retryCount. provider e (length (requests w) + i) v lang = None)
    \<longrightarrow> apiSingleCall_loop e v lang retryCount delay 1 w =
          (Inl (TranslationFailure v retryCount),
           w\<lparr>requests := requests w @ replicate (nat retryCount) (v, lang),
             sleeps := sleeps w @ map (\<lambda>i. delay * 2 ^ i) [0..<nat retryCount - 1],
             mode := suspend (mode w)\<rparr>))
   \<and> apiSingleCall e v lang w = apiSingleCall_loop e v lang 3 1000 1 w"
proof (intro conjI impI)
  assume h: "1 \<le> n \<and> int n \<le> retryCount
      \<and> (\<forall>i<n - 1. provider e (length (requests w) + i) v lang = None)
      \<and> provider e (length (requests w) + (n - 1)) v lang = Some r"
  then obtain j where n: "n = Suc j" by (cases n) auto
  show "apiSingleCall_loop e v lang retryCount delay 1 w =
          (Inr (JStr r),
           w\<lparr>requests := requests w @ replicate n (v, lang),
             sleeps := sleeps w @ map (\<lambda>i. delay * 2 ^ i) [0..<n - 1],
             mode := suspend (mode w)\<rparr>)"
    using apiSingleCall_loop_succeeds[of 1 j retryCount e w v lang r delay] h n by simp
next
  assume h: "1 \<le> retryCount
      \<and> (\<forall>i<nat retryCount. provider e (length (requests w) + i) v lang = None)"
  then obtain k where k: "nat retryCount = Suc k" by (cases "nat retryCount") auto
  then have "1 + int k = retryCount" by linarith
  moreover have "\<forall>i\<le>k. provider e (length (requests w) + i) v lang = None"
    using h k by simp
  ultimately show "apiSingleCall_loop e v lang retryCount delay 1 w =
          (Inl (TranslationFailure v retryCount),
           w\<lparr>requests := requests w @ replicate (nat retryCount) (v, lang),
             sleeps := sleeps w @ map (\<lambda>i. delay * 2 ^ i) [0..<nat retryCount - 1],
             mode := suspend (mode w)\<rparr>)"
    using apiSingleCall_loop_fails[of 1 k retryCount e w v lang delay] k by simp
next
  show "apiSingleCall e v lang w = apiSingleCall_loop e v lang 3 1000 1 w"
    by (simp add: apiSingleCall_def)
qed

theorem apiSingleCall_retry_witness:
  "apiSingleCall (example_env (\<lambda>n t l. if n < 2 then None else Some ''Hola'')) ''Hello'' ''es'' empty_world =
     (Inr (JStr ''Hola''),
      empty_world\<lparr>requests := [(''Hello'', ''es''), (''Hello'', ''es''), (''Hello'', ''es'')],
                  sleeps := [1000, 2000]\<rparr>)
   \<and> apiSingleCall (example_env (\<lambda>n t l. None)) ''Hello'' ''es'' empty_world =
     (Inl (TranslationFailure ''Hello'' 3),
      empty_world\<lparr>requests := [(''Hello'', ''es''), (''Hello'', ''es''), (''Hello'', ''es'')],
                  sleeps := [1000, 2000]\<rparr>)"
proof -
  let ?e1 = "example_env (\<lambda>n t l. if n < 2 then None else Some ''Hola'')"
  let ?e2 = "example_env (\<lambda>n t l. None)"
  have 1: "apiSingleCall ?e1 ''Hello'' ''es'' empty_world =
     (Inr (JStr ''Hola''),
      empty_world\<lparr>requests := [(''Hello'', ''es''), (''Hello'', ''es''), (''Hello'', ''es'')],
                  sleeps := [1000, 2000]\<rparr>)"
    using apiSingleCall_retry[of 3 3 ?e1 empty_world "''Hello''" "''es''" "''Hola''" 1000]
    by (simp add: example_env_def empty_world_def suspend_def numeral_3_eq_3 upt_conv_Cons)
  have 2: "apiSingleCall ?e2 ''Hello'' ''es'' empty_world =
     (Inl (TranslationFailure ''Hello'' 3),
      empty_world\<lparr>requests := [(''Hello'', ''es''), (''Hello'', ''es''), (''Hello'', ''es'')],
                  sleeps := [1000, 2000]\<rparr>)"
    using apiSingleCall_retry[of 3 3 ?e2 empty_world "''Hello''" "''es''" "''Hola''" 1000]
    by (simp add: example_env_def empty_world_def suspend_def numeral_3_eq_3 upt_conv_Cons)
  show ?thesis using 1 2 by blast
qed

section \<open>Properties of the tree translator\<close>

lemma calls_made_Nil: "calls_made lang [] w w"
  by (simp add: calls_made_def attempts_def)

lemma calls_made_append:
  "calls_made lang a w w1 \<Longrightarrow> calls_made lang b w1 w2 \<Longrightarrow> calls_made lang (a @ b) w w2"
proof -
  assume "calls_made lang a w w1" "calls_made lang b w1 w2"
  then obtain ns ms where
    ns: "length ns = length a" "requests w1 = requests w @ attempts lang a ns"
        "length (sleeps w1) = length (sleeps w) + sum_list ns" and
    ms: "length ms = length b" "requests w2 = requests w1 @ attempts lang b ms"
        "length (sleeps w2) = length (sleeps w1) + sum_list ms"
    by (auto simp: calls_made_def)
  have "attempts lang (a @ b) (ns @ ms) = attempts lang a ns @ attempts lang b ms"
    using ns(1) by (simp add: attempts_def)
  then show ?thesis
    unfolding calls_made_def using ns ms
    by (intro exI[of _ "ns @ ms"]) simp
qed

lemma calls_made_requests: "calls_made lang strs w w' \<Longrightarrow> \<exists>new. requests w' = requests w @ new"
  by (auto simp: calls_made_def)

lemma answered_by_later:
  "answered_by e lang w w1 s r \<Longrightarrow> requests w' = requests w1 @ new \<Longrightarrow> answered_by e lang w w' s r"
  unfolding answered_by_def by (auto simp: nth_append)

lemma answered_by_earlier:
  "answered_by e lang w1 w' s r \<Longrightarrow> requests w1 = requests w @ new \<Longrightarrow> answered_by e lang w w' s r"
  unfolding answered_by_def by auto

lemma translated_mono:
  "(\<And>s r. P s r \<Longrightarrow> Q s r) \<Longrightarrow> translated_val P v out \<Longrightarrow> translated_val Q v out"
  "(\<And>s r. P s r \<Longrightarrow> Q s r) \<Longrightarrow> translated_elems P xs ys \<Longrightarrow> translated_elems Q xs ys"
  "(\<And>s r. P s r \<Longrightarrow> Q s r) \<Longrightarrow> translated_props P es ps \<Longrightarrow> translated_props Q es ps"
proof (induction P v out and P xs ys and P es ps rule: translated_val_translated_elems_translated_props.induct)
qed (auto split: jsval.splits list.splits)

lemma apiSingleCall_loop_calls:
  "apiSingleCall_loop e v lang retryCount delay attempt w = (Inr t, w') \<Longrightarrow>
   attempt \<le> retryCount \<Longrightarrow>
   (\<exists>r. t = JStr r \<and> answered_by e lang w w' v r) \<and> calls_made lang [v] w w'"
proof (induction e v lang retryCount delay attempt w rule: apiSingleCall_loop.induct)
  case (1 e v lang retryCount delay attempt w)
  show ?case
  proof (cases "fst (axios_post e v lang w)")
    case (Some r)
    then have "t = JStr r" "w' = snd (axios_post e v lang w)"
      using "1.prems" by (subst (asm) apiSingleCall_loop.simps, simp)+
    then show ?thesis using Some
      by (auto simp: calls_made_def attempts_def axios_post_def answered_by_def intro!: exI[of _ "[0]"])
  next
    case None
    let ?w1 = "sleep delay (snd (axios_post e v lang w))"
    from None "1.prems" have lt: "attempt < retryCount"
      by (subst (asm) apiSingleCall_loop.simps) (auto split: if_splits)
    with None "1.prems" have rec:
      "apiSingleCall_loop e v lang retryCount (delay * 2) (attempt + 1) ?w1 = (Inr t, w')"
      by (subst (asm) apiSingleCall_loop.simps) simp
    from "1.IH"[OF "1.prems"(2) None lt rec] lt
    obtain r where IH: "t = JStr r" "answered_by e lang ?w1 w' v r" "calls_made lang [v] ?w1 w'"
      by auto
    then obtain ns where ns: "length ns = 1" "requests w' = requests ?w1 @ attempts lang [v] ns"
        "length (sleeps w') = length (sleeps ?w1) + sum_list ns"
      by (auto simp: calls_made_def)
    then obtain n where n: "ns = [n]" by (cases ns) auto
    have "calls_made lang [v] w w'"
      unfolding calls_made_def using ns n
      by (intro exI[of _ "[Suc n]"]) (simp add: attempts_def sleep_def axios_post_def replicate_app_Cons_same)
    moreover have "answered_by e lang w w' v r"
      using answered_by_earlier[OF IH(2), where w = w and new = "[(v, lang)]"]
      by (simp add: sleep_def axios_post_def)
    ultimately show ?thesis using IH(1) by simp
  qed
qed

lemma apiSingleCall_calls:
  "apiSingleCall e v lang w = (Inr t, w') \<Longrightarrow>
   (\<exists>r. t = JStr r \<and> answered_by e lang w w' v r) \<and> calls_made lang [v] w w'"
  using apiSingleCall_loop_calls[of e v lang 3 1000 1 w t w'] by (simp add: apiSingleCall_def)

lemma key_order_snoc_insert:
  "\<forall>k' \<in> set (map fst acc). key_before k' k \<Longrightarrow> obj_insert k v acc = acc @ [(k, v)]"
  by (induction acc) (auto simp: key_before_def split: if_splits)

lemma obj_set_snoc:
  "key_order (map fst acc @ [k]) \<Longrightarrow> obj_set acc k v = acc @ [(k, v)]"
  by (auto simp: key_order_def obj_set_def has_key_def sorted_wrt_append intro!: key_order_snoc_insert)

lemma key_order_prefix: "key_order (ks @ ks') \<Longrightarrow> key_order ks"
  by (auto simp: key_order_def sorted_wrt_append)

lemma key_order_drop: "key_order (ks @ k # ks') \<Longrightarrow> key_order (ks @ ks')"
  by (auto simp: key_order_def sorted_wrt_append)




lemma translate_shape_aux:
  "\<forall>out w'. translate_entries e es lang acc w = (Inr out, w') \<longrightarrow>
      key_order (map fst acc @ map fst es) \<longrightarrow> wf_obj es \<longrightarrow>
      (\<exists>new. out = acc @ new \<and> translated_props (answered_by e lang w w') (kept_props es) new)
      \<and> calls_made lang (prop_strings es) w w'"
  and "\<forall>ys w'. translate_items e xs lang w = (Inr ys, w') \<longrightarrow>
      translated_elems (answered_by e lang w w') xs ys \<and> calls_made lang (elem_strings xs) w w'"
proof (induction e es lang acc w and e xs lang w rule: translate_entries_translate_items.induct)
  case (1 e lang translatedObj w)
  show ?case by (simp add: calls_made_Nil)
next
  case (2 e k v rest lang acc w)
  show ?case
  proof (intro allI impI)
    fix out w'
    assume run: "translate_entries e ((k, v) # rest) lang acc w = (Inr out, w')"
      and ko: "key_order (map fst acc @ map fst ((k, v) # rest))"
      and wf: "wf_obj ((k, v) # rest)"
    have snoc: "\<And>t. k \<noteq> ''__proto__'' \<Longrightarrow> obj_assign acc k t = acc @ [(k, t)]"
      using ko key_order_prefix[of "map fst acc @ [k]" "map fst rest"]
      by (simp add: obj_set_snoc obj_assign_def)
    have skip: "\<And>t. k = ''__proto__'' \<Longrightarrow> obj_assign acc k t = acc"
      by (simp add: obj_assign_def)
    have ko': "\<And>t. key_order (map fst (obj_assign acc k t) @ map fst rest)"
    proof -
      fix t show "key_order (map fst (obj_assign acc k t) @ map fst rest)"
      proof (cases "k = ''__proto__''")
        case True
        then show ?thesis using ko key_order_drop[of "map fst acc" k "map fst rest"] skip by simp
      next
        case False
        then show ?thesis using ko snoc by simp
      qed
    qed
    have wfr: "wf_obj rest" and wfv: "wf_val v" using wf by simp_all
    have step: "(\<exists>new. out = acc @ new
                   \<and> translated_props (answered_by e lang w w') (kept_props ((k, v) # rest)) new)
                  \<and> calls_made lang (prop_strings ((k, v) # rest)) w w'"
      if rest: "translate_entries e rest lang (obj_assign acc k t) w1 = (Inr out, w')"
        and IH: "\<forall>out w'. translate_entries e rest lang (obj_assign acc k t) w1 = (Inr out, w') \<longrightarrow>
                   key_order (map fst (obj_assign acc k t) @ map fst rest) \<longrightarrow> wf_obj rest \<longrightarrow>
                   (\<exists>new. out = obj_assign acc k t @ new
                       \<and> translated_props (answered_by e lang w1 w') (kept_props rest) new)
                     \<and> calls_made lang (prop_strings rest) w1 w'"
        and tv: "translated_val (answered_by e lang w w1) (kept_val v) t"
        and cm: "calls_made lang (leaf_strings v) w w1"
      for t w1
    proof -
      from IH rest ko'[of t] wfr
      obtain new where new: "out = obj_assign acc k t @ new"
          "translated_props (answered_by e lang w1 w') (kept_props rest) new"
        and cm2: "calls_made lang (prop_strings rest) w1 w'"
        by blast
      from calls_made_requests[OF cm] obtain r1 where r1: "requests w1 = requests w @ r1" by blast
      from calls_made_requests[OF cm2] obtain r2 where r2: "requests w' = requests w1 @ r2" by blast
      have tv': "translated_val (answered_by e lang w w') (kept_val v) t"
        using translated_mono(1)[OF _ tv, of "answered_by e lang w w'"] answered_by_later[OF _ r2]
        by blast
      have tp': "translated_props (answered_by e lang w w') (kept_props rest) new"
        using translated_mono(3)[OF _ new(2), of "answered_by e lang w w'"] answered_by_earlier[OF _ r1]
        by blast
      have cm': "calls_made lang (prop_strings ((k, v) # rest)) w w'"
        using calls_made_append[OF cm cm2] by simp
      show ?thesis
      proof (cases "k = ''__proto__''")
        case True
        then show ?thesis using new(1) skip tp' cm' by simp
      next
        case False
        have "out = acc @ ((k, t) # new)" using new(1) snoc[OF False] by simp
        moreover have "translated_props (answered_by e lang w w') (kept_props ((k, v) # rest)) ((k, t) # new)"
          using tp' tv' False by simp
        ultimately show ?thesis using cm' by blast
      qed
    qed
    show "(\<exists>new. out = acc @ new
             \<and> translated_props (answered_by e lang w w') (kept_props ((k, v) # rest)) new)
            \<and> calls_made lang (prop_strings ((k, v) # rest)) w w'"
    proof (cases v)
      case JUndef
      show ?thesis
        using step[of v w] run "2.IH"(1)[OF JUndef] JUndef by (simp add: calls_made_Nil)
    next
      case JNull
      show ?thesis
        using step[of v w] run "2.IH"(2)[OF JNull] JNull by (simp add: calls_made_Nil)
    next
      case (JBool b)
      show ?thesis
        using step[of v w] run "2.IH"(3)[OF JBool] JBool by (simp add: calls_made_Nil)
    next
      case (JNum n)
      show ?thesis
        using step[of v w] run "2.IH"(4)[OF JNum] JNum by (simp add: calls_made_Nil)
    next
      case (JStr s)
      from run JStr obtain t w1 where api: "apiSingleCall e s lang w = (Inr t, w1)"
        and rest: "translate_entries e rest lang (obj_assign acc k t) w1 = (Inr out, w')"
        by (auto split: prod.splits sum.splits)
      from apiSingleCall_calls[OF api]
      have "translated_val (answered_by e lang w w1) (kept_val v) t" "calls_made lang [s] w w1"
        using JStr by auto
      then show ?thesis
        using step[OF rest "2.IH"(5)[OF JStr api[symmetric] refl]] JStr by simp
    next
      case (JArr items)
      from run JArr obtain ts w1 where it: "translate_items e items lang w = (Inr ts, w1)"
        and rest: "translate_entries e rest lang (obj_assign acc k (JArr ts)) w1 = (Inr out, w')"
        by (auto split: prod.splits sum.splits)
      from "2.IH"(6)[OF JArr] it
      have "translated_elems (answered_by e lang w w1) items ts"
        "calls_made lang (elem_strings items) w w1" by simp_all
      then show ?thesis
        using step[OF rest "2.IH"(7)[OF JArr it[symmetric] refl]] JArr by simp
    next
      case (JObj nested)
      from run JObj obtain t w1 where it: "translate_entries e nested lang [] w = (Inr t, w1)"
        and rest: "translate_entries e rest lang (obj_assign acc k (JObj t)) w1 = (Inr out, w')"
        by (auto split: prod.splits sum.splits)
      from "2.IH"(8)[OF JObj] it wfv JObj
      have "translated_props (answered_by e lang w w1) (kept_props nested) t"
        "calls_made lang (prop_strings nested) w w1" by simp_all
      then show ?thesis
        using step[OF rest "2.IH"(9)[OF JObj it[symmetric] refl]] JObj by simp
    qed
  qed
next
  case (3 e lang w)
  show ?case by (simp add: calls_made_Nil)
next
  case (4 e item items lang w)
  show ?case
  proof (intro allI impI)
    fix ys w'
    assume run: "translate_items e (item # items) lang w = (Inr ys, w')"
    then obtain t w1 ts where
      first: "(case item of JStr s \<Rightarrow> apiSingleCall e s lang w | _ \<Rightarrow> (Inr item, w)) = (Inr t, w1)"
      and rest: "translate_items e items lang w1 = (Inr ts, w')" and ys: "ys = t # ts"
      by (auto split: prod.splits sum.splits)
    from "4.IH"[OF first[symmetric] refl] rest
    have IH: "translated_elems (answered_by e lang w1 w') items ts"
      "calls_made lang (elem_strings items) w1 w'" by simp_all
    have hd: "(case item of JStr s \<Rightarrow> (case t of JStr r \<Rightarrow> answered_by e lang w w1 s r | _ \<Rightarrow> False)
               | _ \<Rightarrow> t = item)
            \<and> calls_made lang (case item of JStr s \<Rightarrow> [s] | _ \<Rightarrow> []) w w1"
    proof (cases item)
      case (JStr s)
      with first have "apiSingleCall e s lang w = (Inr t, w1)" by simp
      from apiSingleCall_calls[OF this] show ?thesis using JStr by auto
    qed (use first in \<open>auto simp: calls_made_Nil\<close>)
    from calls_made_requests[OF hd[THEN conjunct2]] obtain r1 where r1: "requests w1 = requests w @ r1"
      by blast
    from calls_made_requests[OF IH(2)] obtain r2 where r2: "requests w' = requests w1 @ r2" by blast
    have tl: "translated_elems (answered_by e lang w w') items ts"
      using translated_mono(2)[OF _ IH(1), of "answered_by e lang w w'"] answered_by_earlier[OF _ r1]
      by blast
    have hd': "(case item of JStr s \<Rightarrow> (case t of JStr r \<Rightarrow> answered_by e lang w w' s r | _ \<Rightarrow> False)
               | _ \<Rightarrow> t = item)"
      using hd answered_by_later[OF _ r2] by (auto split: jsval.splits)
    show "translated_elems (answered_by e lang w w') (item # items) ys
            \<and> calls_made lang (elem_strings (item # items)) w w'"
      using tl hd' hd IH(2) ys calls_made_append by auto
  qed
qed


lemma apiSingleCall_no_failure:
  "\<forall>n t l. provider e n t l \<noteq> None \<Longrightarrow>
   \<exists>r. apiSingleCall e v lang w =
     (Inr (JStr r), w\<lparr>requests := requests w @ [(v, lang)], mode := suspend (mode w)\<rparr>)"
proof -
  assume nf: "\<forall>n t l. provider e n t l \<noteq> None"
  then have "provider e (length (requests w)) v lang \<noteq> None" by blast
  then obtain r where r: "provider e (length (requests w)) v lang = Some r" by blast
  show ?thesis
    using apiSingleCall_loop_succeeds[of 1 0 3 e w v lang r 1000] r
    by (simp add: apiSingleCall_def)
qed

lemma translate_no_failure:
  "(\<forall>n t l. provider e n t l \<noteq> None) \<longrightarrow>
     sleeps (snd (translate_entries e es lang acc w)) = sleeps w
     \<and> (\<exists>out. fst (translate_entries e es lang acc w) = Inr out)"
  "(\<forall>n t l. provider e n t l \<noteq> None) \<longrightarrow>
     sleeps (snd (translate_items e xs lang w)) = sleeps w
     \<and> (\<exists>ys. fst (translate_items e xs lang w) = Inr ys)"
proof (induction e es lang acc w and e xs lang w rule: translate_entries_translate_items.induct)
  case (1 e lang translatedObj w)
  show ?case by simp
next
  case (2 e k v rest lang acc w)
  show ?case
  proof
    assume nf: "\<forall>n t l. provider e n t l \<noteq> None"
    show "sleeps (snd (translate_entries e ((k, v) # rest) lang acc w)) = sleeps w
          \<and> (\<exists>out. fst (translate_entries e ((k, v) # rest) lang acc w) = Inr out)"
    proof (cases v)
      case (JStr s)
      from apiSingleCall_no_failure[OF nf, of s lang w] obtain r where
        a: "apiSingleCall e s lang w =
              (Inr (JStr r), w\<lparr>requests := requests w @ [(s, lang)], mode := suspend (mode w)\<rparr>)"
        by blast
      show ?thesis using "2.IH"(5)[OF JStr a[symmetric] refl] nf JStr a by simp
    next
      case (JArr items)
      obtain x y where it: "translate_items e items lang w = (x, y)" by (cases "translate_items e items lang w")
      have y: "sleeps y = sleeps w" and "\<exists>ts. x = Inr ts" using "2.IH"(6)[OF JArr] nf it by simp_all
      then obtain ts where Inr: "x = Inr ts" by blast
      show ?thesis using "2.IH"(7)[OF JArr it[symmetric] Inr] nf JArr it y Inr by simp
    next
      case (JObj nested)
      obtain x y where it: "translate_entries e nested lang [] w = (x, y)"
        by (cases "translate_entries e nested lang [] w")
      have y: "sleeps y = sleeps w" and "\<exists>ts. x = Inr ts" using "2.IH"(8)[OF JObj] nf it by simp_all
      then obtain t where Inr: "x = Inr t" by blast
      show ?thesis using "2.IH"(9)[OF JObj it[symmetric] Inr] nf JObj it y Inr by simp
    qed (use "2.IH"(1-4) nf in simp_all)
  qed
next
  case (3 e lang w)
  show ?case by simp
next
  case (4 e item items lang w)
  show ?case
  proof
    assume nf: "\<forall>n t l. provider e n t l \<noteq> None"
    obtain x y where first:
      "(case item of JStr s \<Rightarrow> apiSingleCall e s lang w | _ \<Rightarrow> (Inr item, w)) = (x, y)"
      by (cases "(case item of JStr s \<Rightarrow> apiSingleCall e s lang w | _ \<Rightarrow> (Inr item, w))")
    have y: "sleeps y = sleeps w \<and> (\<exists>t. x = Inr t)"
    proof (cases item)
      case (JStr s)
      from apiSingleCall_no_failure[OF nf, of s lang w] obtain r where
        "apiSingleCall e s lang w =
           (Inr (JStr r), w\<lparr>requests := requests w @ [(s, lang)], mode := suspend (mode w)\<rparr>)"
        by blast
      then show ?thesis using first JStr by auto
    qed (use first in auto)
    then obtain t where x: "x = Inr t" by blast
    show "sleeps (snd (translate_items e (item # items) lang w)) = sleeps w
          \<and> (\<exists>ys. fst (translate_items e (item # items) lang w) = Inr ys)"
      using "4.IH"[OF first[symmetric] x] nf first x y
      by (auto split: prod.splits sum.splits)
  qed
qed





section \<open>Properties of the derived calendar data\<close>

lemma upt_7: "[0..<7] = [0, 1, 2, 3, 4, 5, 6 :: nat]"
  by code_simp

lemma upt_12: "[0..<12] = [0, 1, 2, 3, 4, 5, 6, 7, 8, 9, 10, 11 :: nat]"
  by code_simp

lemma week_instants:
  "map (\<lambda>day. Date_UTC 2021 5 (int day)) [0..<7] =
     [1622419200000, 1622505600000, 1622592000000, 1622678400000, 1622764800000,
      1622851200000, 1622937600000]"
  by (simp add: upt_7 Date_UTC_def days_from_civil_def)

lemma month_instants:
  "map (\<lambda>month. Date_UTC 2021 (int month) 2) [0..<12] =
     [1609545600000, 1612224000000, 1614643200000, 1617321600000, 1619913600000,
      1622592000000, 1625184000000, 1627862400000, 1630540800000, 1633132800000,
      1635811200000, 1638403200000]"
  by (simp add: upt_12 Date_UTC_def days_from_civil_def)

lemma getWeekNames_instants:
  "getWeekNames e code style =
     (case those (map (\<lambda>t. date_format e code Weekday style t)
        [1622419200000, 1622505600000, 1622592000000, 1622678400000, 1622764800000,
         1622851200000, 1622937600000]) of
        None \<Rightarrow> Inl (RangeError code)
      | Some names \<Rightarrow> Inr (JArr (map JStr names)))"
  unfolding getWeekNames_def week_instants[symmetric] by (simp add: comp_def)

lemma getMonthNames_instants:
  "getMonthNames e code style =
     (case those (map (\<lambda>t. date_format e code Month style t)
        [1609545600000, 1612224000000, 1614643200000, 1617321600000, 1619913600000,
         1622592000000, 1625184000000, 1627862400000, 1630540800000, 1633132800000,
         1635811200000, 1638403200000]) of
        None \<Rightarrow> Inl (RangeError code)
      | Some names \<Rightarrow> Inr (JArr (map JStr names)))"
  unfolding getMonthNames_def month_instants[symmetric] by (simp add: comp_def)



lemma civil_month_values:
  "civil_month 18629 = 0"
  "civil_month 18660 = 1"
  "civil_month 18688 = 2"
  "civil_month 18719 = 3"
  "civil_month 18749 = 4"
  "civil_month 18780 = 5"
  "civil_month 18810 = 6"
  "civil_month 18841 = 7"
  "civil_month 18872 = 8"
  "civil_month 18902 = 9"
  "civil_month 18933 = 10"
  "civil_month 18963 = 11"
  "civil_month 18628 = 0"
  "civil_month 18659 = 1"
  "civil_month 18687 = 2"
  "civil_month 18718 = 3"
  "civil_month 18748 = 4"
  "civil_month 18779 = 5"
  "civil_month 18809 = 6"
  "civil_month 18840 = 7"
  "civil_month 18871 = 8"
  "civil_month 18901 = 9"
  "civil_month 18932 = 10"
  "civil_month 18962 = 11"
  by code_simp+

lemma english_weekdays:
  "getWeekNames (ee\<lparr>date_format := zoned_english_format 0\<rparr>) ''en'' Long =
     Inr (JArr [JStr ''Monday'', JStr ''Tuesday'', JStr ''Wednesday'', JStr ''Thursday'',
                JStr ''Friday'', JStr ''Saturday'', JStr ''Sunday''])"
  "getWeekNames (ee\<lparr>date_format := zoned_english_format 0\<rparr>) ''en'' Short =
     Inr (JArr [JStr ''Mon'', JStr ''Tue'', JStr ''Wed'', JStr ''Thu'',
                JStr ''Fri'', JStr ''Sat'', JStr ''Sun''])"
  "getWeekNames (ee\<lparr>date_format := zoned_english_format (- 10800000)\<rparr>) ''en'' Long =
     Inr (JArr [JStr ''Sunday'', JStr ''Monday'', JStr ''Tuesday'', JStr ''Wednesday'', JStr ''Thursday'',
                JStr ''Friday'', JStr ''Saturday''])"
  "getWeekNames (ee\<lparr>date_format := zoned_english_format (- 10800000)\<rparr>) ''en'' Short =
     Inr (JArr [JStr ''Sun'', JStr ''Mon'', JStr ''Tue'', JStr ''Wed'', JStr ''Thu'',
                JStr ''Fri'', JStr ''Sat''])"
  unfolding getWeekNames_instants
  by (simp_all add: zoned_english_format_def english_weekday_def utc_weekday_def)

lemma english_months:
  "getMonthNames (ee\<lparr>date_format := zoned_english_format 0\<rparr>) ''en'' Long =
     Inr (JArr [JStr ''January'', JStr ''February'', JStr ''March'', JStr ''April'', JStr ''May'',
                JStr ''June'', JStr ''July'', JStr ''August'', JStr ''September'', JStr ''October'',
                JStr ''November'', JStr ''December''])"
  "getMonthNames (ee\<lparr>date_format := zoned_english_format 0\<rparr>) ''en'' Short =
     Inr (JArr [JStr ''Jan'', JStr ''Feb'', JStr ''Mar'', JStr ''Apr'', JStr ''May'',
                JStr ''Jun'', JStr ''Jul'', JStr ''Aug'', JStr ''Sep'', JStr ''Oct'',
                JStr ''Nov'', JStr ''Dec''])"
  "getMonthNames (ee\<lparr>date_format := zoned_english_format (- 10800000)\<rparr>) ''en'' Long =
     Inr (JArr [JStr ''January'', JStr ''February'', JStr ''March'', JStr ''April'', JStr ''May'',
                JStr ''June'', JStr ''July'', JStr ''August'', JStr ''September'', JStr ''October'',
                JStr ''November'', JStr ''December''])"
  "getMonthNames (ee\<lparr>date_format := zoned_english_format (- 10800000)\<rparr>) ''en'' Short =
     Inr (JArr [JStr ''Jan'', JStr ''Feb'', JStr ''Mar'', JStr ''Apr'', JStr ''May'',
                JStr ''Jun'', JStr ''Jul'', JStr ''Aug'', JStr ''Sep'', JStr ''Oct'',
                JStr ''Nov'', JStr ''Dec''])"
  unfolding getMonthNames_instants
  by (simp_all add: zoned_english_format_def english_month_def civil_month_values)


text \<open>What \<^verbatim>\<open>daysForLocale\<close> returns, for any formatter: the names are formatted for
  the locale, with \<^verbatim>\<open>zh\<close> in the place of \<^verbatim>\<open>lzh\<close>, and the word \<^verbatim>\<open>Hoje\<close> is an answer
  of the provider to a request in the current language.\<close>

lemma daysForLocale_result:
  assumes "daysForLocale e localeName w = (Inr cal, w')"
  shows "\<exists>monthNames monthNamesShort dayNames dayNamesShort today.
      getMonthNames e (if localeName = ''lzh'' then ''zh'' else localeName) Long = Inr monthNames
    \<and> getMonthNames e (if localeName = ''lzh'' then ''zh'' else localeName) Short = Inr monthNamesShort
    \<and> getWeekNames e (if localeName = ''lzh'' then ''zh'' else localeName) Long = Inr dayNames
    \<and> getWeekNames e (if localeName = ''lzh'' then ''zh'' else localeName) Short = Inr dayNamesShort
    \<and> cal = JObj [(''monthNames'', monthNames), (''monthNamesShort'', monthNamesShort),
                  (''dayNames'', dayNames), (''dayNamesShort'', dayNamesShort),
                  (''today'', JStr today)]
    \<and> answered_by e (currentLanguage w) w w' ''Hoje'' today
    \<and> calls_made (currentLanguage w) [''Hoje''] w w'"
proof -
  from assms obtain mn mns dn dns t where
    g: "getMonthNames e (if localeName = ''lzh'' then ''zh'' else localeName) Long = Inr mn"
       "getMonthNames e (if localeName = ''lzh'' then ''zh'' else localeName) Short = Inr mns"
       "getWeekNames e (if localeName = ''lzh'' then ''zh'' else localeName) Long = Inr dn"
       "getWeekNames e (if localeName = ''lzh'' then ''zh'' else localeName) Short = Inr dns"
    and api: "apiSingleCall e ''Hoje'' (currentLanguage w) w = (Inr t, w')"
    and cal: "cal = JObj [(''monthNames'', mn), (''monthNamesShort'', mns),
                  (''dayNames'', dn), (''dayNamesShort'', dns), (''today'', t)]"
    unfolding daysForLocale_def Let_def by (auto split: prod.splits sum.splits)
  from apiSingleCall_calls[OF api] g cal show ?thesis by blast
qed

lemma daysForLocale_calls:
  "daysForLocale e localeName w = (Inr cal, w1) \<Longrightarrow>
   calls_made (currentLanguage w) [''Hoje''] w w1"
  using daysForLocale_result by blast

lemma daysForLocale_english:
  "daysForLocale ((example_env (\<lambda>n t l. Some ''Today''))\<lparr>date_format := zoned_english_format 0\<rparr>)
         ''en'' (empty_world\<lparr>currentLanguage := ''en''\<rparr>)
     = (Inr (JObj [(''monthNames'',
                JArr [JStr ''January'', JStr ''February'', JStr ''March'', JStr ''April'', JStr ''May'',
                      JStr ''June'', JStr ''July'', JStr ''August'', JStr ''September'', JStr ''October'',
                      JStr ''November'', JStr ''December'']),
               (''monthNamesShort'',
                JArr [JStr ''Jan'', JStr ''Feb'', JStr ''Mar'', JStr ''Apr'', JStr ''May'', JStr ''Jun'',
                      JStr ''Jul'', JStr ''Aug'', JStr ''Sep'', JStr ''Oct'', JStr ''Nov'', JStr ''Dec'']),
               (''dayNames'',
                JArr [JStr ''Monday'', JStr ''Tuesday'', JStr ''Wednesday'', JStr ''Thursday'',
                      JStr ''Friday'', JStr ''Saturday'', JStr ''Sunday'']),
               (''dayNamesShort'',
                JArr [JStr ''Mon'', JStr ''Tue'', JStr ''Wed'', JStr ''Thu'', JStr ''Fri'', JStr ''Sat'', JStr ''Sun'']),
               (''today'', JStr ''Today'')]),
        empty_world\<lparr>currentLanguage := ''en'', requests := [(''Hoje'', ''en'')]\<rparr>)"
proof -
  have a: "apiSingleCall ((example_env (\<lambda>n t l. Some ''Today''))\<lparr>date_format := f\<rparr>) ''Hoje'' ''en''
             (empty_world\<lparr>currentLanguage := ''en''\<rparr>)
       = (Inr (JStr ''Today''), empty_world\<lparr>currentLanguage := ''en'', requests := [(''Hoje'', ''en'')]\<rparr>)"
    for f
    by (simp add: apiSingleCall_def apiSingleCall_loop.simps axios_post_def
        example_env_fields empty_world_def suspend_def)
  show ?thesis
    by (simp add: daysForLocale_def Let_def a english_months english_weekdays)
qed

text \<open>
  Claim C6, where the code departs from it. The weekday names are formatted for
  the seven instants \<^verbatim>\<open>Date.UTC(2021, 5, day)\<close> with \<^verbatim>\<open>day\<close> from 0 to 6 (lines 41
  to 43): the midnights, in universal time, that open 2021-05-31, a Monday, and
  the six days after it. The formatter names the day of the week of the local
  date of an instant. In a process whose time zone is universal time the list
  \<^verbatim>\<open>dayNames\<close> runs from Monday to Sunday; in a process three hours behind
  universal time, where the first instant is still the evening of Sunday, it
  runs from Sunday to Saturday. The month names, formatted for the second day of
  each month, are the same in both, and the word \<^verbatim>\<open>Hoje\<close> is translated into the
  current language.
\<close>

theorem daysForLocale_first_weekday:
  "fst (daysForLocale ((example_env (\<lambda>n t l. Some ''Today''))\<lparr>date_format := zoned_english_format 0\<rparr>)
         ''en'' (empty_world\<lparr>currentLanguage := ''en''\<rparr>))
     = Inr (JObj [(''monthNames'',
           JArr [JStr ''January'', JStr ''February'', JStr ''March'', JStr ''April'', JStr ''May'',
                     JStr ''June'', JStr ''July'', JStr ''August'', JStr ''September'', JStr ''October'',
                     JStr ''November'', JStr ''December'']),
          (''monthNamesShort'',
           JArr [JStr ''Jan'', JStr ''Feb'', JStr ''Mar'', JStr ''Apr'', JStr ''May'', JStr ''Jun'',
                     JStr ''Jul'', JStr ''Aug'', JStr ''Sep'', JStr ''Oct'', JStr ''Nov'', JStr ''Dec'']),
          (''dayNames'',
           JArr [JStr ''Monday'', JStr ''Tuesday'', JStr ''Wednesday'', JStr ''Thursday'',
                 JStr ''Friday'', JStr ''Saturday'', JStr ''Sunday'']),
          (''dayNamesShort'',
           JArr [JStr ''Mon'', JStr ''Tue'', JStr ''Wed'', JStr ''Thu'', JStr ''Fri'', JStr ''Sat'', JStr ''Sun'']),
          (''today'', JStr ''Today'')])
   \<and> fst (daysForLocale
         ((example_env (\<lambda>n t l. Some ''Today''))\<lparr>date_format := zoned_english_format (- 10800000)\<rparr>)
         ''en'' (empty_world\<lparr>currentLanguage := ''en''\<rparr>))
     = Inr (JObj [(''monthNames'',
           JArr [JStr ''January'', JStr ''February'', JStr ''March'', JStr ''April'', JStr ''May'',
                     JStr ''June'', JStr ''July'', JStr ''August'', JStr ''September'', JStr ''October'',
                     JStr ''November'', JStr ''December'']),
          (''monthNamesShort'',
           JArr [JStr ''Jan'', JStr ''Feb'', JStr ''Mar'', JStr ''Apr'', JStr ''May'', JStr ''Jun'',
                     JStr ''Jul'', JStr ''Aug'', JStr ''Sep'', JStr ''Oct'', JStr ''Nov'', JStr ''Dec'']),
          (''dayNames'',
           JArr [JStr ''Sunday'', JStr ''Monday'', JStr ''Tuesday'', JStr ''Wednesday'',
                 JStr ''Thursday'', JStr ''Friday'', JStr ''Saturday'']),
          (''dayNamesShort'',
           JArr [JStr ''Sun'', JStr ''Mon'', JStr ''Tue'', JStr ''Wed'', JStr ''Thu'', JStr ''Fri'', JStr ''Sat'']),
          (''today'', JStr ''Today'')])"
proof -
  have a: "apiSingleCall ((example_env (\<lambda>n t l. Some ''Today''))\<lparr>date_format := f\<rparr>) ''Hoje'' ''en''
             (empty_world\<lparr>currentLanguage := ''en''\<rparr>)
       = (Inr (JStr ''Today''), empty_world\<lparr>currentLanguage := ''en'', requests := [(''Hoje'', ''en'')]\<rparr>)"
    for f
    by (simp add: apiSingleCall_def apiSingleCall_loop.simps axios_post_def
        example_env_fields empty_world_def suspend_def)
  show ?thesis
    by (simp add: daysForLocale_def Let_def a english_months english_weekdays)
qed


section \<open>Properties of persistence\<close>

lemma spread_into_append:
  "key_order (map fst dst @ map fst src) \<Longrightarrow> spread_into dst src = dst @ src"
proof (induction src arbitrary: dst)
  case Nil
  then show ?case by (simp add: spread_into_def)
next
  case (Cons kv src)
  obtain k v where kv: "kv = (k, v)" by (cases kv)
  have 1: "obj_set dst k v = dst @ [(k, v)]"
    using Cons.prems kv key_order_prefix[of "map fst dst @ [k]" "map fst src"] by (simp add: obj_set_snoc)
  have "spread_into (dst @ [(k, v)]) src = (dst @ [(k, v)]) @ src"
    using Cons.prems kv by (intro Cons.IH) simp
  then show ?case using 1 kv by (simp add: spread_into_def)
qed

lemma spread_into_copy: "key_order (map fst src) \<Longrightarrow> spread_into [] src = src"
  using spread_into_append[of "[]" src] by simp

lemma map_of_spread_into_other:
  "\<not> has_key src k \<Longrightarrow> map_of (spread_into dst src) k = map_of dst k"
  unfolding spread_into_def
  by (induction src arbitrary: dst) (auto simp: has_key_Cons map_of_obj_set)

text \<open>The merge of line 233 keeps every top-level key of the existing tree that the
  translated tree does not have.\<close>

lemma merge_keeps_other_top_level_keys:
  "key_order (map fst existing) \<Longrightarrow> \<not> has_key translatedData k \<Longrightarrow>
   map_of (spread_into (spread_into [] existing) translatedData) k = map_of existing k"
  by (simp add: map_of_spread_into_other spread_into_copy)

text \<open>When nothing is missing, nothing is asked and nothing is written.\<close>

lemma nothing_missing_no_effect:
  "read_existing e filePath w = Inr existing \<Longrightarrow> findMissingKeys e obj existing = Inr [] \<Longrightarrow>
   translateAndSaveNestedObject e obj desiredLanguage filePath w = (Inr (), w)"
  by (simp add: translateAndSaveNestedObject_def)

lemma written_writeFileSync: "written (writeFileSync p c w) p c"
  by (simp add: written_def writeFileSync_def)

lemma writeFileSync_frame:
  "requests (writeFileSync p c w) = requests w"
  "sleeps (writeFileSync p c w) = sleeps w"
  "currentLanguage (writeFileSync p c w) = currentLanguage w"
  "mode (writeFileSync p c w) = mode w"
  by (simp_all add: writeFileSync_def)

lemma obj_assign_calendar: "obj_assign es ''calendar_locale'' v = obj_set es ''calendar_locale'' v"
  by (simp add: obj_assign_def)

lemma saveTranslations_cases:
  assumes "saveTranslations e filePath data x missingKeys w = (Inr (), w')"
  shows "(x = ''.json'' \<or> x = ''.ts'')
       \<and> (if has_key missingKeys ''calendar_locale''
          then \<exists>cal w1. daysForLocale e (currentLanguage w) w = (Inr cal, w1)
                 \<and> w' = writeFileSync filePath
                          (serialise e x (obj_set (spread_into [] data) ''calendar_locale'' cal)) w1
          else w' = writeFileSync filePath (serialise e x (spread_into [] data)) w)"
  using assms
  by (auto simp: saveTranslations_def serialise_def Let_def obj_assign_calendar
      split: prod.splits sum.splits if_splits)

lemma obj_replace_split:
  "obj_replace k v es =
     (if has_key es k then takeWhile (\<lambda>(k', v'). k' \<noteq> k) es @ (k, v) # drop 1 (dropWhile (\<lambda>(k', v'). k' \<noteq> k) es)
      else es)"
  by (induction es) (auto simp: has_key_Cons has_key_Nil)

lemma obj_insert_last: "\<not> is_index k \<Longrightarrow> obj_insert k v es = es @ [(k, v)]"
  by (induction es) auto

lemma no_calendar_split:
  "\<not> has_key es ''calendar_locale'' \<Longrightarrow> before_calendar es = es \<and> after_calendar es = []"
  unfolding before_calendar_def after_calendar_def
  by (induction es) (auto simp: has_key_Cons)

lemma obj_set_calendar:
  "obj_set es ''calendar_locale'' v = before_calendar es @ (''calendar_locale'', v) # after_calendar es"
proof (cases "has_key es ''calendar_locale''")
  case True
  then show ?thesis
    by (simp add: obj_set_def obj_replace_split before_calendar_def after_calendar_def)
next
  case False
  have "\<not> is_index ''calendar_locale''" by (simp add: is_index_def is_digit_def)
  then have "obj_set es ''calendar_locale'' v = es @ [(''calendar_locale'', v)]"
    using False by (simp add: obj_set_def obj_insert_last)
  moreover have "before_calendar es = es" "after_calendar es = []"
    using no_calendar_split[OF False] by simp_all
  ultimately show ?thesis by simp
qed

lemma before_calendar_no_key: "\<not> has_key (before_calendar es) ''calendar_locale''"
  unfolding before_calendar_def by (induction es) (auto simp: has_key_Cons has_key_Nil)

lemma tsContent_lines: "tsContent e es = ''export default {'' @ [newline] @ ts_lines e es @ ''};''"
  by (simp add: tsContent_def ts_lines_def)

lemma ts_lines_append: "ts_lines e (a @ b) = ts_lines e a @ ts_lines e b"
  by (simp add: ts_lines_def)

lemma ts_lines_calendar:
  "v \<noteq> JUndef \<Longrightarrow>
   ts_lines e ((''calendar_locale'', v) # es) =
     ''    calendar_locale: '' @ json_stringify e v @ '','' @ [newline] @ ts_lines e es"
  by (simp add: ts_lines_def formatValue_def interpolate_def)

text \<open>
  Claim C5. \<^verbatim>\<open>saveTranslations\<close> succeeds only for the extensions \<^verbatim>\<open>.json\<close> and \<^verbatim>\<open>.ts\<close>.
  When it succeeds and \<^verbatim>\<open>calendar_locale\<close> is a top-level key of the missing keys,
  the file holds for that key the value that \<^verbatim>\<open>daysForLocale\<close> computes for the
  current language. For \<^verbatim>\<open>.json\<close> the content is \<^verbatim>\<open>JSON.stringify\<close> of the tree
  that has the properties of the merged data that stand before and after the key,
  as they are, and the computed value under the key. For \<^verbatim>\<open>.ts\<close> the content is the
  opening line, the lines of the properties before the key, the line that reads
  \<^verbatim>\<open>calendar_locale:\<close> followed by \<^verbatim>\<open>JSON.stringify\<close> of the computed value and a
  comma, the lines of the properties after the key, and the closing line. What
  the merged data held under the key, the output of the translator, is in
  neither. When \<^verbatim>\<open>calendar_locale\<close> is not among the missing keys, the content is
  that of the merged data as it is, and the provider is not asked for anything.
\<close>

theorem saveTranslations_calendar:
  "saveTranslations e filePath data x missingKeys w = (Inr (), w') \<Longrightarrow>
   key_order (map fst data) \<Longrightarrow>
     (x = ''.json'' \<or> x = ''.ts'')
   \<and> (has_key missingKeys ''calendar_locale'' \<longrightarrow>
        (\<exists>cal w1.
           daysForLocale e (currentLanguage w) w = (Inr cal, w1)
         \<and> (x = ''.json'' \<longrightarrow>
              written w' filePath
                (json_stringify e
                   (JObj (before_calendar data @ (''calendar_locale'', cal) # after_calendar data))))
         \<and> (x = ''.ts'' \<longrightarrow>
              written w' filePath
                (''export default {'' @ [newline]
                 @ ts_lines e (before_calendar data)
                 @ ''    calendar_locale: '' @ json_stringify e cal @ '','' @ [newline]
                 @ ts_lines e (after_calendar data)
                 @ ''};''))))
   \<and> (\<not> has_key missingKeys ''calendar_locale'' \<longrightarrow>
        (x = ''.json'' \<longrightarrow> written w' filePath (json_stringify e (JObj data)))
      \<and> (x = ''.ts'' \<longrightarrow>
           written w' filePath (''export default {'' @ [newline] @ ts_lines e data @ ''};''))
      \<and> requests w' = requests w)"
proof -
  assume run: "saveTranslations e filePath data x missingKeys w = (Inr (), w')"
    and ko: "key_order (map fst data)"
  note c = saveTranslations_cases[OF run, unfolded spread_into_copy[OF ko]]
  have x: "x = ''.json'' \<or> x = ''.ts''" using c by simp
  show ?thesis
  proof (cases "has_key missingKeys ''calendar_locale''")
    case True
    with c obtain cal w1 where d: "daysForLocale e (currentLanguage w) w = (Inr cal, w1)"
      and w': "w' = writeFileSync filePath (serialise e x (obj_set data ''calendar_locale'' cal)) w1"
      by auto
    from daysForLocale_result[OF d] have nu: "cal \<noteq> JUndef" by auto
    have j: "x = ''.json'' \<longrightarrow>
              written w' filePath
                (json_stringify e
                   (JObj (before_calendar data @ (''calendar_locale'', cal) # after_calendar data)))"
      using w' by (simp add: serialise_def obj_set_calendar written_writeFileSync)
    have t: "x = ''.ts'' \<longrightarrow>
              written w' filePath
                (''export default {'' @ [newline]
                 @ ts_lines e (before_calendar data)
                 @ ''    calendar_locale: '' @ json_stringify e cal @ '','' @ [newline]
                 @ ts_lines e (after_calendar data)
                 @ ''};'')"
      using w' written_writeFileSync[of filePath _ w1]
      by (simp add: serialise_def obj_set_calendar tsContent_lines ts_lines_append
          ts_lines_calendar[OF nu])
    show ?thesis using True x d j t by blast
  next
    case False
    with c have "w' = writeFileSync filePath (serialise e x data) w" by simp
    then show ?thesis using False x
      by (auto simp: written_writeFileSync writeFileSync_frame serialise_def tsContent_lines)
  qed
qed


theorem saveTranslations_calendar_witness:
  "key_order (map fst [(''greeting'', JStr ''Hello''),
          (''calendar_locale'', JObj [(''today'', JStr ''machine output'')]),
          (''farewell'', JStr ''Bye'')])
   \<and> fst (saveTranslations ((example_env (\<lambda>n t l. Some ''Today''))\<lparr>date_format := zoned_english_format 0\<rparr>) ''/out/en.ts''
         [(''greeting'', JStr ''Hello''),
          (''calendar_locale'', JObj [(''today'', JStr ''machine output'')]),
          (''farewell'', JStr ''Bye'')] ''.ts''
         [(''calendar_locale'', JObj [(''today'', JStr ''Hoje'')])] (empty_world\<lparr>currentLanguage := ''en''\<rparr>)) = Inr ()
   \<and> fs (snd (saveTranslations ((example_env (\<lambda>n t l. Some ''Today''))\<lparr>date_format := zoned_english_format 0\<rparr>) ''/out/en.ts''
         [(''greeting'', JStr ''Hello''),
          (''calendar_locale'', JObj [(''today'', JStr ''machine output'')]),
          (''farewell'', JStr ''Bye'')] ''.ts''
         [(''calendar_locale'', JObj [(''today'', JStr ''Hoje'')])] (empty_world\<lparr>currentLanguage := ''en''\<rparr>))) ''/out/en.ts''
     = Some (''export default {'' @ [newline]
           @ ''    greeting: '' @ [squote] @ ''Hello'' @ [squote] @ '','' @ [newline]
           @ ''    calendar_locale: ''
           @ render
               (JObj [(''monthNames'',
                JArr [JStr ''January'', JStr ''February'', JStr ''March'', JStr ''April'', JStr ''May'',
                      JStr ''June'', JStr ''July'', JStr ''August'', JStr ''September'', JStr ''October'',
                      JStr ''November'', JStr ''December'']),
               (''monthNamesShort'',
                JArr [JStr ''Jan'', JStr ''Feb'', JStr ''Mar'', JStr ''Apr'', JStr ''May'', JStr ''Jun'',
                      JStr ''Jul'', JStr ''Aug'', JStr ''Sep'', JStr ''Oct'', JStr ''Nov'', JStr ''Dec'']),
               (''dayNames'',
                JArr [JStr ''Monday'', JStr ''Tuesday'', JStr ''Wednesday'', JStr ''Thursday'',
                      JStr ''Friday'', JStr ''Saturday'', JStr ''Sunday'']),
               (''dayNamesShort'',
                JArr [JStr ''Mon'', JStr ''Tue'', JStr ''Wed'', JStr ''Thu'', JStr ''Fri'', JStr ''Sat'', JStr ''Sun'']),
               (''today'', JStr ''Today'')])
           @ '','' @ [newline]
           @ ''    farewell: '' @ [squote] @ ''Bye'' @ [squote] @ '','' @ [newline]
           @ ''};'')"
proof -
  let ?e = "((example_env (\<lambda>n t l. Some ''Today''))\<lparr>date_format := zoned_english_format 0\<rparr>)"
  let ?data = "[(''greeting'', JStr ''Hello''),
          (''calendar_locale'', JObj [(''today'', JStr ''machine output'')]),
          (''farewell'', JStr ''Bye'')]"
  let ?missing = "[(''calendar_locale'', JObj [(''today'', JStr ''Hoje'')])]"
  let ?w = "(empty_world\<lparr>currentLanguage := ''en''\<rparr>)"
  let ?w1 = "empty_world\<lparr>currentLanguage := ''en'', requests := [(''Hoje'', ''en'')]\<rparr>"
  let ?cal = "JObj [(''monthNames'',
                JArr [JStr ''January'', JStr ''February'', JStr ''March'', JStr ''April'', JStr ''May'',
                      JStr ''June'', JStr ''July'', JStr ''August'', JStr ''September'', JStr ''October'',
                      JStr ''November'', JStr ''December'']),
               (''monthNamesShort'',
                JArr [JStr ''Jan'', JStr ''Feb'', JStr ''Mar'', JStr ''Apr'', JStr ''May'', JStr ''Jun'',
                      JStr ''Jul'', JStr ''Aug'', JStr ''Sep'', JStr ''Oct'', JStr ''Nov'', JStr ''Dec'']),
               (''dayNames'',
                JArr [JStr ''Monday'', JStr ''Tuesday'', JStr ''Wednesday'', JStr ''Thursday'',
                      JStr ''Friday'', JStr ''Saturday'', JStr ''Sunday'']),
               (''dayNamesShort'',
                JArr [JStr ''Mon'', JStr ''Tue'', JStr ''Wed'', JStr ''Thu'', JStr ''Fri'', JStr ''Sat'', JStr ''Sun'']),
               (''today'', JStr ''Today'')]"
  have ko: "key_order (map fst ?data)"
    by (simp add: key_order_def key_before_def is_index_def is_digit_def)
  have hk: "has_key ?missing ''calendar_locale''" "\<not> has_key ?missing ''hasOwnProperty''"
    by (simp_all add: has_key_def)
  have days: "daysForLocale ?e (currentLanguage ?w) ?w = (Inr ?cal, ?w1)"
    using daysForLocale_english by simp
  obtain r w' where run0: "saveTranslations ?e ''/out/en.ts'' ?data ''.ts'' ?missing ?w = (r, w')"
    by (cases "saveTranslations ?e ''/out/en.ts'' ?data ''.ts'' ?missing ?w")
  have r: "r = Inr ()" and md: "mode w' = Awaited"
    using run0 unfolding saveTranslations_def Let_def
    by (simp_all only: hk if_True if_False days prod.case sum.case refl
        Pair_inject[THEN iffD1] simp_thms) (auto simp: writeFileSync_frame empty_world_def)
  have run: "saveTranslations ?e ''/out/en.ts'' ?data ''.ts'' ?missing ?w = (Inr (), w')"
    using run0 r by simp
  have js: "json_stringify ?e = render" by (simp add: example_env_fields)
  from saveTranslations_calendar[OF run ko] hk days
  have "written w' ''/out/en.ts''
          (''export default {'' @ [newline]
           @ ts_lines ?e (before_calendar ?data)
           @ ''    calendar_locale: '' @ json_stringify ?e ?cal @ '','' @ [newline]
           @ ts_lines ?e (after_calendar ?data)
           @ ''};'')"
    by auto
  then have "fs w' ''/out/en.ts'' = Some (''export default {'' @ [newline]
           @ ''    greeting: '' @ [squote] @ ''Hello'' @ [squote] @ '','' @ [newline]
           @ ''    calendar_locale: ''
           @ render
               (JObj [(''monthNames'',
                JArr [JStr ''January'', JStr ''February'', JStr ''March'', JStr ''April'', JStr ''May'',
                      JStr ''June'', JStr ''July'', JStr ''August'', JStr ''September'', JStr ''October'',
                      JStr ''November'', JStr ''December'']),
               (''monthNamesShort'',
                JArr [JStr ''Jan'', JStr ''Feb'', JStr ''Mar'', JStr ''Apr'', JStr ''May'', JStr ''Jun'',
                      JStr ''Jul'', JStr ''Aug'', JStr ''Sep'', JStr ''Oct'', JStr ''Nov'', JStr ''Dec'']),
               (''dayNames'',
                JArr [JStr ''Monday'', JStr ''Tuesday'', JStr ''Wednesday'', JStr ''Thursday'',
                      JStr ''Friday'', JStr ''Saturday'', JStr ''Sunday'']),
               (''dayNamesShort'',
                JArr [JStr ''Mon'', JStr ''Tue'', JStr ''Wed'', JStr ''Thu'', JStr ''Fri'', JStr ''Sat'', JStr ''Sun'']),
               (''today'', JStr ''Today'')])
           @ '','' @ [newline]
           @ ''    farewell: '' @ [squote] @ ''Bye'' @ [squote] @ '','' @ [newline]
           @ ''};'')"
    unfolding js
    by (simp add: written_def md before_calendar_def after_calendar_def ts_lines_def
        formatValue_def interpolate_def newline_def squote_def dquote_def)
  with ko run show ?thesis by simp
qed


section \<open>Requests of one locale\<close>

lemma length_attempts:
  "length ns = length strs \<Longrightarrow> length (attempts lang strs ns) = length strs + sum_list ns"
  unfolding attempts_def
  by (induction strs ns rule: list_induct2') auto

lemma set_attempts:
  "length ns = length strs \<Longrightarrow> set (attempts lang strs ns) = (\<lambda>s. (s, lang)) ` set strs"
  unfolding attempts_def
  by (induction strs ns rule: list_induct2') auto

lemma daysForLocale_no_failure_sleeps:
  "\<forall>n t l. provider e n t l \<noteq> None \<Longrightarrow> sleeps (snd (daysForLocale e localeName w)) = sleeps w"
  using apiSingleCall_no_failure[of e "''Hoje''" "currentLanguage w" w]
  by (auto simp: daysForLocale_def Let_def split: sum.splits)

lemma example_names:
  "getMonthNames (example_env p) c s = Inr (JArr (replicate 12 (JStr [])))"
  "getWeekNames (example_env p) c s = Inr (JArr (replicate 7 (JStr [])))"
  unfolding getMonthNames_instants getWeekNames_instants
  by (simp_all add: example_env_fields eval_nat_numeral)

text \<open>
  Claim C10, as the code has it. Take a run in which the translator returns a
  tree for the missing keys and the serialiser then succeeds. The provider was
  asked for every string of the missing keys, in the target language, those
  beneath \<^verbatim>\<open>calendar_locale\<close> among them, which are translated like any others.
  When \<^verbatim>\<open>calendar_locale\<close> is a top-level missing key, the tree that is written
  holds the derived calendar under that key, not what the translator returned
  for it, and one more string, \<^verbatim>\<open>Hoje\<close>, was sent. The number of requests is the
  number of the strings, plus one when \<^verbatim>\<open>calendar_locale\<close> is a top-level missing
  key, plus one for every failed attempt that was retried (each of them leaves
  one sleep behind). With a provider that never fails there is no sleep, and the
  number is the one the claim gives.
\<close>

theorem pipeline_provider_calls:
  "wf_val (JObj missingKeys) \<Longrightarrow>
   translateNestedObject e missingKeys lang w = (Inr translatedData, w1) \<Longrightarrow>
   saveTranslations e filePath data x missingKeys w1 = (Inr (), w2) \<Longrightarrow>
     length (requests w2) + length (sleeps w) =
       length (requests w) + length (leaf_strings (JObj missingKeys))
       + (if has_key missingKeys ''calendar_locale'' then 1 else 0) + length (sleeps w2)
   \<and> (\<exists>new. requests w1 = requests w @ new
          \<and> set new = (\<lambda>s. (s, lang)) ` set (leaf_strings (JObj missingKeys)))
   \<and> (has_key missingKeys ''calendar_locale'' \<longrightarrow>
        (\<exists>cal w'. daysForLocale e (currentLanguage w1) w1 = (Inr cal, w')
           \<and> written w2 filePath (serialise e x (obj_set (spread_into [] data) ''calendar_locale'' cal))))
   \<and> ((\<forall>n t l. provider e n t l \<noteq> None) \<longrightarrow> sleeps w2 = sleeps w)"
proof -
  assume wf: "wf_val (JObj missingKeys)"
    and t: "translateNestedObject e missingKeys lang w = (Inr translatedData, w1)"
    and s: "saveTranslations e filePath data x missingKeys w1 = (Inr (), w2)"
  from translate_shape_aux(1)[of e missingKeys lang "[]" w] t wf
  have cm: "calls_made lang (prop_strings missingKeys) w w1"
    by (auto simp: translateNestedObject_def)
  then obtain ns where ns: "length ns = length (prop_strings missingKeys)"
    "requests w1 = requests w @ attempts lang (prop_strings missingKeys) ns"
    "length (sleeps w1) = length (sleeps w) + sum_list ns"
    by (auto simp: calls_made_def)
  note c = saveTranslations_cases[OF s]
  have part2: "\<exists>new. requests w1 = requests w @ new
          \<and> set new = (\<lambda>s. (s, lang)) ` set (leaf_strings (JObj missingKeys))"
    using ns set_attempts[OF ns(1), of lang] by auto
  have nf1: "(\<forall>n t l. provider e n t l \<noteq> None) \<longrightarrow> sleeps w1 = sleeps w"
    using translate_no_failure(1)[of e missingKeys lang "[]" w] t
    by (simp add: translateNestedObject_def)
  show ?thesis
  proof (cases "has_key missingKeys ''calendar_locale''")
    case True
    with c obtain cal w' where d: "daysForLocale e (currentLanguage w1) w1 = (Inr cal, w')"
      and w2: "w2 = writeFileSync filePath
                 (serialise e x (obj_set (spread_into [] data) ''calendar_locale'' cal)) w'"
      by auto
    from daysForLocale_calls[OF d] obtain ms where ms: "length ms = 1"
      "requests w' = requests w1 @ attempts (currentLanguage w1) [''Hoje''] ms"
      "length (sleeps w') = length (sleeps w1) + sum_list ms"
      by (auto simp: calls_made_def)
    have cnt: "length (requests w2) + length (sleeps w) =
       length (requests w) + length (leaf_strings (JObj missingKeys)) + 1 + length (sleeps w2)"
      using ns ms w2 length_attempts[OF ns(1), of lang]
        length_attempts[of ms "[''Hoje'']" "currentLanguage w1"]
      by (simp add: writeFileSync_frame)
    have nf2: "(\<forall>n t l. provider e n t l \<noteq> None) \<longrightarrow> sleeps w2 = sleeps w"
      using nf1 daysForLocale_no_failure_sleeps[of e "currentLanguage w1" w1] d w2
      by (auto simp: writeFileSync_frame)
    show ?thesis using True cnt part2 d w2 nf2
      by (auto simp: written_writeFileSync)
  next
    case False
    with c have w2: "w2 = writeFileSync filePath (serialise e x (spread_into [] data)) w1" by simp
    have cnt: "length (requests w2) + length (sleeps w) =
       length (requests w) + length (leaf_strings (JObj missingKeys)) + length (sleeps w2)"
      using ns w2 length_attempts[OF ns(1), of lang] by (simp add: writeFileSync_frame)
    show ?thesis using False cnt part2 nf1 w2
      by (auto simp: writeFileSync_frame)
  qed
qed

theorem pipeline_provider_calls_witness:
  "wf_val (JObj [(''title'', JStr ''Oi''),
                 (''calendar_locale'', JObj [(''today'', JStr ''Hoje''), (''dayNames'', JArr [JStr ''Dom'', JStr ''Seg''])])])
   \<and> fst (translateNestedObject (example_env (\<lambda>n t l. Some (t @ ''-'' @ l)))
        [(''title'', JStr ''Oi''),
         (''calendar_locale'', JObj [(''today'', JStr ''Hoje''), (''dayNames'', JArr [JStr ''Dom'', JStr ''Seg''])])]
        ''es'' (empty_world\<lparr>currentLanguage := ''es''\<rparr>))
      = Inr [(''title'', JStr ''Oi-es''),
             (''calendar_locale'', JObj [(''today'', JStr ''Hoje-es''), (''dayNames'', JArr [JStr ''Dom-es'', JStr ''Seg-es''])])]
   \<and> requests (snd (saveTranslations (example_env (\<lambda>n t l. Some (t @ ''-'' @ l))) ''/out/es.ts''
        [(''title'', JStr ''Oi-es''),
         (''calendar_locale'', JObj [(''today'', JStr ''Hoje-es''), (''dayNames'', JArr [JStr ''Dom-es'', JStr ''Seg-es''])])]
        ''.json''
        [(''title'', JStr ''Oi''),
         (''calendar_locale'', JObj [(''today'', JStr ''Hoje''), (''dayNames'', JArr [JStr ''Dom'', JStr ''Seg''])])]
        (snd (translateNestedObject (example_env (\<lambda>n t l. Some (t @ ''-'' @ l)))
          [(''title'', JStr ''Oi''),
           (''calendar_locale'', JObj [(''today'', JStr ''Hoje''), (''dayNames'', JArr [JStr ''Dom'', JStr ''Seg''])])]
          ''es'' (empty_world\<lparr>currentLanguage := ''es''\<rparr>)))))
      = [(''Oi'', ''es''), (''Hoje'', ''es''), (''Dom'', ''es''), (''Seg'', ''es''), (''Hoje'', ''es'')]
   \<and> length (leaf_strings (JObj [(''title'', JStr ''Oi''),
         (''calendar_locale'', JObj [(''today'', JStr ''Hoje''), (''dayNames'', JArr [JStr ''Dom'', JStr ''Seg''])])])) = 4"
proof -
  let ?e = "example_env (\<lambda>n t l. Some (t @ ''-'' @ l))"
  let ?M = "[(''title'', JStr ''Oi''),
             (''calendar_locale'', JObj [(''today'', JStr ''Hoje''), (''dayNames'', JArr [JStr ''Dom'', JStr ''Seg''])])]"
  let ?T = "[(''title'', JStr ''Oi-es''),
             (''calendar_locale'', JObj [(''today'', JStr ''Hoje-es''), (''dayNames'', JArr [JStr ''Dom-es'', JStr ''Seg-es''])])]"
  let ?w = "empty_world\<lparr>currentLanguage := ''es''\<rparr>"
  let ?w1 = "empty_world\<lparr>currentLanguage := ''es'',
               requests := [(''Oi'', ''es''), (''Hoje'', ''es''), (''Dom'', ''es''), (''Seg'', ''es'')]\<rparr>"
  have wf: "wf_val (JObj ?M)"
    by (simp add: key_order_def key_before_def is_index_def is_digit_def)
  have t: "translateNestedObject ?e ?M ''es'' ?w = (Inr ?T, ?w1)"
    by (simp add: translateNestedObject_def apiSingleCall_def apiSingleCall_loop.simps
        axios_post_def example_env_fields empty_world_def obj_assign_def obj_set_def has_key_def
        is_index_def is_digit_def suspend_def)
  obtain r w2 where s0: "saveTranslations ?e ''/out/es.ts'' ?T ''.json'' ?M ?w1 = (r, w2)"
    by (cases "saveTranslations ?e ''/out/es.ts'' ?T ''.json'' ?M ?w1")
  have days: "daysForLocale ?e (currentLanguage ?w1) ?w1 =
      (Inr (JObj [(''monthNames'', JArr (replicate 12 (JStr []))),
                  (''monthNamesShort'', JArr (replicate 12 (JStr []))),
                  (''dayNames'', JArr (replicate 7 (JStr []))),
                  (''dayNamesShort'', JArr (replicate 7 (JStr []))),
                  (''today'', JStr ''Hoje-es'')]),
       ?w1\<lparr>requests := requests ?w1 @ [(''Hoje'', ''es'')]\<rparr>)"
    by (simp add: daysForLocale_def Let_def apiSingleCall_def apiSingleCall_loop.simps axios_post_def
        example_names example_env_fields empty_world_def suspend_def)
  have hk: "has_key ?M ''calendar_locale''" "\<not> has_key ?M ''hasOwnProperty''"
    by (simp_all add: has_key_def)
  have r: "r = Inr ()" and rq: "requests w2 = requests ?w1 @ [(''Hoje'', ''es'')]"
    using s0 unfolding saveTranslations_def Let_def
    by (simp_all only: hk if_True if_False days prod.case sum.case refl writeFileSync_frame
        Pair_inject[THEN iffD1] simp_thms) (auto simp: writeFileSync_frame)
  have s: "saveTranslations ?e ''/out/es.ts'' ?T ''.json'' ?M ?w1 = (Inr (), w2)"
    using s0 r by simp
  have "length (requests w2) + length (sleeps ?w) =
       length (requests ?w) + length (leaf_strings (JObj ?M))
       + (if has_key ?M ''calendar_locale'' then 1 else 0) + length (sleeps w2)"
    using pipeline_provider_calls[OF wf t s] by blast
  then have "length (leaf_strings (JObj ?M)) = 4" by simp
  moreover have "requests (snd (saveTranslations ?e ''/out/es.ts'' ?T ''.json'' ?M
                    (snd (translateNestedObject ?e ?M ''es'' ?w))))
      = [(''Oi'', ''es''), (''Hoje'', ''es''), (''Dom'', ''es''), (''Seg'', ''es''), (''Hoje'', ''es'')]"
    using t s rq by (simp add: empty_world_def)
  ultimately show ?thesis using wf t by simp
qed

text \<open>
  The claim C10 as it is worded counts one provider call for each string. A
  request that fails is made again: with a provider that fails once, the one
  string of \<^verbatim>\<open>{a: "x"}\<close> costs two requests.
\<close>

theorem pipeline_provider_calls_counterexample:
  "translateNestedObject (example_env (\<lambda>n t l. if n = 0 then None else Some ''equis''))
       [(''a'', JStr ''x'')] ''es'' empty_world
     = (Inr [(''a'', JStr ''equis'')],
        empty_world\<lparr>requests := [(''x'', ''es''), (''x'', ''es'')], sleeps := [1000]\<rparr>)
   \<and> leaf_strings (JObj [(''a'', JStr ''x'')]) = [''x'']
   \<and> \<not> has_key [(''a'', JStr ''x'')] ''calendar_locale''
   \<and> requests (snd (saveTranslations (example_env (\<lambda>n t l. if n = 0 then None else Some ''equis''))
          ''/out/es.ts'' [(''a'', JStr ''equis'')] ''.json'' [(''a'', JStr ''x'')]
          (empty_world\<lparr>requests := [(''x'', ''es''), (''x'', ''es'')], sleeps := [1000]\<rparr>)))
       = [(''x'', ''es''), (''x'', ''es'')]"
  by (simp add: translateNestedObject_def apiSingleCall_def apiSingleCall_loop.simps
      axios_post_def sleep_def example_env_fields empty_world_def obj_assign_def obj_set_def has_key_def
      is_index_def is_digit_def suspend_def saveTranslations_def Let_def writeFileSync_frame
      spread_into_def)

section \<open>Where the program departs from its specification\<close>

lemma ext_json: "extname ''./src/languages/pt.json'' = ''.json''"
  by (simp add: extname_def Let_def)

lemma ext_ts: "extname ''./src/languages/pt.ts'' = ''.ts''"
  by (simp add: extname_def Let_def)

text \<open>
  Claim C8 asks that the literal written for a string reads back as that string,
  also when the string holds newlines and quotes of every kind. The branch of
  \<^verbatim>\<open>formatValue\<close> for a string with a newline (line 84) wraps the string in
  backticks and replaces every newline by a newline, which changes nothing; the
  branch after it (line 87) escapes the backticks. So a string with a newline and
  a backtick is written with its backtick bare: for the two characters newline,
  backtick the text written is backtick, newline, backtick, backtick; it reads
  back as the single newline and leaves a backtick behind. The same backtick
  after a single quote is escaped and reads back.
\<close>

theorem formatValue_newline_backtick:
  "formatValue e (JStr [newline, backtick]) ''message'' = JStr [backtick, newline, backtick, backtick]
   \<and> read_literal [backtick, newline, backtick, backtick] = Some ([newline], [backtick])
   \<and> formatValue e (JStr [squote, backtick]) ''message'' = JStr [backtick, squote, backslash, backtick, backtick]
   \<and> read_literal [backtick, squote, backslash, backtick, backtick] = Some ([squote, backtick], [])"
  by (simp add: formatValue_def replace_all_def read_literal_def
      newline_def backtick_def squote_def dquote_def backslash_def)

text \<open>
  Claim C9 places the file of a locale at \<^verbatim>\<open>{outputDir}/{locale}.{ext}\<close>, with the
  extension of the source file. \<^verbatim>\<open>translateAllKeys\<close> builds the path with the
  constant \<^verbatim>\<open>.ts\<close> (line 267), while reading and writing follow \<^verbatim>\<open>ext\<close>: for the
  source \<^verbatim>\<open>pt.json\<close> the content of \<^verbatim>\<open>JSON.stringify\<close> is written to \<^verbatim>\<open>es.ts\<close>.
\<close>

theorem translateAllKeys_json_path:
  "ext ((example_env (\<lambda>n t l. Some (t @ ''-'' @ l)))
          \<lparr>json_stringify := js, languageSourcePath := ''./src/languages/pt.json'',
            languageSource := [(''a'', JStr ''X'')], outputDir := ''/app/lang''\<rparr>) = ''.json''
   \<and> translateAllKeys
        ((example_env (\<lambda>n t l. Some (t @ ''-'' @ l)))
          \<lparr>json_stringify := js, languageSourcePath := ''./src/languages/pt.json'',
            languageSource := [(''a'', JStr ''X'')], outputDir := ''/app/lang''\<rparr>)
        ''es'' empty_world
     = (Inr (),
        empty_world
          \<lparr>fs := [''/app/lang/es.ts'' \<mapsto> js (JObj [(''a'', JStr ''X-es'')])],
            requests := [(''X'', ''es'')],
            events := [FileWritten ''/app/lang/es.ts'']\<rparr>)"
  by (simp add: ext_def ext_json translateAllKeys_def target_path_def
      translateAndSaveNestedObject_def read_existing_def findMissingKeys_def target_value_def
      translateNestedObject_def apiSingleCall_def apiSingleCall_loop.simps axios_post_def
      call_detached_def saveTranslations_def writeFileSync_def spread_into_def Let_def
      example_env_fields example_inherited_def object_prototype_keys_def empty_world_def
      obj_assign_def obj_set_def has_key_def is_index_def is_digit_def
      suspend_def)

text \<open>
  Claim C2 asks that the merge leave every value of the existing tree as it was,
  nested ones too. The difference is taken at every depth, but the merge of line
  233 is a spread of the top level: a top-level key with one nested key missing
  is replaced by the translation of that nested key alone. Here the existing
  file holds \<^verbatim>\<open>{nested: {a: "A-es"}}\<close> and the source \<^verbatim>\<open>{nested: {a: "A", b: "B"}}\<close>;
  what is written is \<^verbatim>\<open>{nested: {b: "B-es"}}\<close>, and \<^verbatim>\<open>nested.a\<close> is lost.
\<close>

theorem merge_drops_nested_translation:
  "translateAndSaveNestedObject
        ((example_env (\<lambda>n t l. Some (t @ ''-'' @ l)))
          \<lparr>json_stringify := js,
            json_parse := (\<lambda>s. if s = ''old content''
                                then Some (JObj [(''nested'', JObj [(''a'', JStr ''A-es'')])]) else None),
            languageSourcePath := ''./src/languages/pt.json''\<rparr>)
        [(''nested'', JObj [(''a'', JStr ''A''), (''b'', JStr ''B'')])]
        ''es'' ''/app/lang/es.ts''
        (empty_world\<lparr>fs := [''/app/lang/es.ts'' \<mapsto> ''old content'']\<rparr>)
     = (Inr (),
        empty_world
          \<lparr>fs := [''/app/lang/es.ts'' \<mapsto> js (JObj [(''nested'', JObj [(''b'', JStr ''B-es'')])])],
            requests := [(''B'', ''es'')],
            events := [FileWritten ''/app/lang/es.ts'']\<rparr>)
   \<and> tree_at (JObj [(''nested'', JObj [(''a'', JStr ''A-es'')])]) [''nested'', ''a''] = Some (JStr ''A-es'')
   \<and> tree_at (JObj [(''nested'', JObj [(''b'', JStr ''B-es'')])]) [''nested'', ''a''] = None"
  by (simp add: ext_def ext_json
      translateAndSaveNestedObject_def read_existing_def findMissingKeys_def target_value_def
      translateNestedObject_def apiSingleCall_def apiSingleCall_loop.simps axios_post_def
      call_detached_def saveTranslations_def writeFileSync_def spread_into_def Let_def
      example_env_fields example_inherited_def object_prototype_keys_def empty_world_def
      obj_assign_def obj_set_def has_key_def is_index_def is_digit_def
      suspend_def)

text \<open>
  Claim C3 asks that a locale start only when the file of the locale before it
  is written. The call of \<^verbatim>\<open>saveTranslations\<close> at line 235 is not awaited. When
  \<^verbatim>\<open>calendar_locale\<close> is among the missing keys, that call waits for the
  translation of \<^verbatim>\<open>Hoje\<close> before it writes, and its caller goes on. With the one
  locale \<^verbatim>\<open>en\<close>: when the locale has finished, which is the state in which the
  next locale would start, its file is not written, and the write is still to
  come. With the locales \<^verbatim>\<open>en\<close> and \<^verbatim>\<open>es\<close>: both have started and finished, both
  writes are still to come, and they do come. Without \<^verbatim>\<open>calendar_locale\<close> among
  the missing keys the call never waits, and each file is written before its
  locale finishes (the last conjunct).
\<close>

theorem locales_overlap:
  "fst (translateForAllLanguages
        ((example_env (\<lambda>n t l. Some (t @ ''-'' @ l)))
          \<lparr>json_stringify := js, languageSourcePath := ''./src/languages/pt.json'',
            languageSource := [(''calendar_locale'', JObj [(''today'', JStr ''Hoje'')])],
            outputLanguages := [''en''], outputDir := ''/app/lang''\<rparr>)
        empty_world) = Inr ()
   \<and> events (snd (translateForAllLanguages
        ((example_env (\<lambda>n t l. Some (t @ ''-'' @ l)))
          \<lparr>json_stringify := js, languageSourcePath := ''./src/languages/pt.json'',
            languageSource := [(''calendar_locale'', JObj [(''today'', JStr ''Hoje'')])],
            outputLanguages := [''en''], outputDir := ''/app/lang''\<rparr>)
        empty_world)) = [LocaleStarted ''en'', LocaleFinished ''en'']
   \<and> fs (snd (translateForAllLanguages
        ((example_env (\<lambda>n t l. Some (t @ ''-'' @ l)))
          \<lparr>json_stringify := js, languageSourcePath := ''./src/languages/pt.json'',
            languageSource := [(''calendar_locale'', JObj [(''today'', JStr ''Hoje'')])],
            outputLanguages := [''en''], outputDir := ''/app/lang''\<rparr>)
        empty_world)) ''/app/lang/en.ts'' = None
   \<and> map fst (late_writes (snd (translateForAllLanguages
        ((example_env (\<lambda>n t l. Some (t @ ''-'' @ l)))
          \<lparr>json_stringify := js, languageSourcePath := ''./src/languages/pt.json'',
            languageSource := [(''calendar_locale'', JObj [(''today'', JStr ''Hoje'')])],
            outputLanguages := [''en''], outputDir := ''/app/lang''\<rparr>)
        empty_world))) = [''/app/lang/en.ts'']
   \<and> fst (translateForAllLanguages
        ((example_env (\<lambda>n t l. Some (t @ ''-'' @ l)))
          \<lparr>json_stringify := js, languageSourcePath := ''./src/languages/pt.json'',
            languageSource := [(''calendar_locale'', JObj [(''today'', JStr ''Hoje'')])],
            outputLanguages := [''en'', ''es''], outputDir := ''/app/lang''\<rparr>)
        empty_world) = Inr ()
   \<and> events (snd (translateForAllLanguages
        ((example_env (\<lambda>n t l. Some (t @ ''-'' @ l)))
          \<lparr>json_stringify := js, languageSourcePath := ''./src/languages/pt.json'',
            languageSource := [(''calendar_locale'', JObj [(''today'', JStr ''Hoje'')])],
            outputLanguages := [''en'', ''es''], outputDir := ''/app/lang''\<rparr>)
        empty_world))
       = [LocaleStarted ''en'', LocaleFinished ''en'', LocaleStarted ''es'', LocaleFinished ''es'']
   \<and> map fst (late_writes (snd (translateForAllLanguages
        ((example_env (\<lambda>n t l. Some (t @ ''-'' @ l)))
          \<lparr>json_stringify := js, languageSourcePath := ''./src/languages/pt.json'',
            languageSource := [(''calendar_locale'', JObj [(''today'', JStr ''Hoje'')])],
            outputLanguages := [''en'', ''es''], outputDir := ''/app/lang''\<rparr>)
        empty_world)))
       = [''/app/lang/en.ts'', ''/app/lang/es.ts'']
   \<and> fs (settle (snd (translateForAllLanguages
        ((example_env (\<lambda>n t l. Some (t @ ''-'' @ l)))
          \<lparr>json_stringify := js, languageSourcePath := ''./src/languages/pt.json'',
            languageSource := [(''calendar_locale'', JObj [(''today'', JStr ''Hoje'')])],
            outputLanguages := [''en'', ''es''], outputDir := ''/app/lang''\<rparr>)
        empty_world))) ''/app/lang/en.ts'' \<noteq> None
   \<and> events (snd (translateForAllLanguages
        ((example_env (\<lambda>n t l. Some (t @ ''-'' @ l)))
          \<lparr>json_stringify := js, languageSourcePath := ''./src/languages/pt.json'',
            languageSource := [(''greeting'', JStr ''Oi'')],
            outputLanguages := [''en'', ''es''], outputDir := ''/app/lang''\<rparr>)
        empty_world))
       = [LocaleStarted ''en'', FileWritten ''/app/lang/en.ts'', LocaleFinished ''en'',
          LocaleStarted ''es'', FileWritten ''/app/lang/es.ts'', LocaleFinished ''es'']"
  by (simp add: ext_def ext_json translateForAllLanguages_def translateAllKeys_def target_path_def
      translateAndSaveNestedObject_def read_existing_def findMissingKeys_def target_value_def
      translateNestedObject_def apiSingleCall_def apiSingleCall_loop.simps axios_post_def
      call_detached_def saveTranslations_def daysForLocale_def getMonthNames_instants
      getWeekNames_instants writeFileSync_def spread_into_def Let_def
      example_env_fields example_inherited_def object_prototype_keys_def empty_world_def
      obj_assign_def obj_set_def has_key_def is_index_def is_digit_def
      suspend_def settle_def)

end
